theory Spec2Isabelle
  imports Main
begin

section \<open>Time\<close>

text \<open>
  A naive UTC \<open>datetime\<close> is modelled as the number of microseconds since the epoch
  (an unbounded integer; the year range of Python's \<open>datetime\<close> is not modelled).
  \<open>timedelta(days=d)\<close> and \<open>timedelta(seconds=s)\<close> are the corresponding numbers of
  microseconds, and \<open>func.date(t)\<close> / \<open>t.date()\<close> is the number of the UTC calendar day.
\<close>

type_synonym datetime = int

definition timedelta_days :: "int \<Rightarrow> int" where
  "timedelta_days d = d * 86400000000"

definition timedelta_seconds :: "int \<Rightarrow> int" where
  "timedelta_seconds n = n * 1000000"

definition date_of :: "datetime \<Rightarrow> int" where
  "date_of t = t div 86400000000"

section \<open>Data model (database.py)\<close>

text \<open>
  The tables \<open>users\<close> and \<open>ads\<close> are lists of rows in insertion order. Roles and statuses
  are the strings the source stores. The surrogate key \<open>User.id\<close> and the table
  \<open>bot_settings\<close> are used by no operation below and are left out. \<open>next_ad_id\<close> is the
  autoincrement counter of \<open>Ad.id\<close>.
\<close>

record user =
  telegram_id :: int
  full_name :: string
  role :: string
  user_created_at :: datetime
  is_blocked :: bool

record ad =
  ad_id :: int
  user_id :: int
  title :: string
  description :: string
  category :: string
  contact :: string
  status :: string
  created_at :: datetime
  expires_at :: datetime
  approved_by :: "int option"
  approved_at :: "datetime option"

record database =
  users :: "user list"
  ads :: "ad list"
  next_ad_id :: int

text \<open>Python truthiness of an optional integer and of an optional string.\<close>

definition truthy_int :: "int option \<Rightarrow> bool" where
  "truthy_int v = (case v of None \<Rightarrow> False | Some n \<Rightarrow> n \<noteq> 0)"

definition truthy_str :: "string option \<Rightarrow> bool" where
  "truthy_str v = (case v of None \<Rightarrow> False | Some s \<Rightarrow> s \<noteq> [])"

subsection \<open>User operations\<close>

text \<open>
  \<open>scalar_one_or_none\<close> over a unique column is the first matching row, if any.
  \<open>create_user\<close> is only ever called after \<open>get_user\<close> returned nothing.
\<close>

definition get_user :: "database \<Rightarrow> int \<Rightarrow> user option" where
  "get_user d tid = find (\<lambda>u. telegram_id u = tid) (users d)"

definition create_user :: "database \<Rightarrow> datetime \<Rightarrow> int \<Rightarrow> string \<Rightarrow> string \<Rightarrow> database" where
  "create_user d now tid name r =
     d\<lparr>users := users d @
        [\<lparr>telegram_id = tid, full_name = name, role = r,
          user_created_at = now, is_blocked = False\<rparr>]\<rparr>"

definition update_user_role :: "database \<Rightarrow> int \<Rightarrow> string \<Rightarrow> bool \<times> database" where
  "update_user_role d tid r =
     (case get_user d tid of
        Some u \<Rightarrow>
          (True, d\<lparr>users := map (\<lambda>u. if telegram_id u = tid then u\<lparr>role := r\<rparr> else u) (users d)\<rparr>)
      | None \<Rightarrow> (False, d))"

definition get_admins :: "database \<Rightarrow> user list" where
  "get_admins d = filter (\<lambda>u. role u \<in> set [''admin'', ''superadmin'']) (users d)"

subsection \<open>Ad operations\<close>

text \<open>
  The column defaults of \<open>created_at\<close> and \<open>expires_at\<close> read the clock during the same
  insert; the model uses one instant \<open>now\<close> for both.
\<close>

definition create_ad ::
  "database \<Rightarrow> datetime \<Rightarrow> int \<Rightarrow> string \<Rightarrow> string \<Rightarrow> string \<Rightarrow> string \<Rightarrow> string \<Rightarrow> int \<times> database" where
  "create_ad d now uid t ds cat c st =
     (next_ad_id d,
      d\<lparr>ads := ads d @
          [\<lparr>ad_id = next_ad_id d, user_id = uid, title = t, description = ds,
            category = cat, contact = c, status = st, created_at = now,
            expires_at = now + timedelta_days 7, approved_by = None, approved_at = None\<rparr>],
        next_ad_id := next_ad_id d + 1\<rparr>)"

definition get_ad :: "database \<Rightarrow> int \<Rightarrow> ad option" where
  "get_ad d i = find (\<lambda>a. ad_id a = i) (ads d)"

definition set_ad_status :: "datetime \<Rightarrow> string \<Rightarrow> int option \<Rightarrow> ad \<Rightarrow> ad" where
  "set_ad_status now st by a =
     (let a1 = a\<lparr>status := st\<rparr>
      in if st = ''approved'' \<and> truthy_int by
         then a1\<lparr>approved_by := by, approved_at := Some now\<rparr>
         else a1)"

definition update_ad_status ::
  "database \<Rightarrow> datetime \<Rightarrow> int \<Rightarrow> string \<Rightarrow> int option \<Rightarrow> bool \<times> database" where
  "update_ad_status d now i st by =
     (case get_ad d i of
        Some a \<Rightarrow>
          (True, d\<lparr>ads := map (\<lambda>a. if ad_id a = i then set_ad_status now st by a else a) (ads d)\<rparr>)
      | None \<Rightarrow> (False, d))"

definition set_ad_fields :: "string option \<Rightarrow> string option \<Rightarrow> string option \<Rightarrow> ad \<Rightarrow> ad" where
  "set_ad_fields t ds c a =
     (let a1 = (if truthy_str t then a\<lparr>title := the t\<rparr> else a);
          a2 = (if truthy_str ds then a1\<lparr>description := the ds\<rparr> else a1)
      in if truthy_str c then a2\<lparr>contact := the c\<rparr> else a2)"

definition update_ad ::
  "database \<Rightarrow> int \<Rightarrow> string option \<Rightarrow> string option \<Rightarrow> string option \<Rightarrow> bool \<times> database" where
  "update_ad d i t ds c =
     (case get_ad d i of
        Some a \<Rightarrow>
          (True, d\<lparr>ads := map (\<lambda>a. if ad_id a = i then set_ad_fields t ds c a else a) (ads d)\<rparr>)
      | None \<Rightarrow> (False, d))"

definition delete_ad :: "database \<Rightarrow> int \<Rightarrow> bool \<times> database" where
  "delete_ad d i =
     (case get_ad d i of
        Some a \<Rightarrow> (True, d\<lparr>ads := filter (\<lambda>a. ad_id a \<noteq> i) (ads d)\<rparr>)
      | None \<Rightarrow> (False, d))"

definition get_user_ads_today :: "database \<Rightarrow> datetime \<Rightarrow> int \<Rightarrow> ad list" where
  "get_user_ads_today d now tid =
     filter (\<lambda>a. user_id a = tid \<and> date_of (created_at a) = date_of now) (ads d)"

definition db_cleanup_old_ads :: "database \<Rightarrow> datetime \<Rightarrow> nat \<times> database" where
  "db_cleanup_old_ads d now =
     (let week_ago = now - timedelta_days 7;
          old_ads = filter (\<lambda>a. expires_at a < week_ago) (ads d)
      in (length old_ads, d\<lparr>ads := filter (\<lambda>a. \<not> expires_at a < week_ago) (ads d)\<rparr>))"


section \<open>Rate limiter (utils.py)\<close>

definition is_rate_limited ::
  "(int \<rightharpoonup> datetime list) \<Rightarrow> datetime \<Rightarrow> int \<Rightarrow> int \<Rightarrow> int \<Rightarrow> bool \<times> (int \<rightharpoonup> datetime list)" where
  "is_rate_limited user_actions now uid max_actions time_window =
     (let ua1 = (case user_actions uid of None \<Rightarrow> user_actions(uid \<mapsto> []) | Some l \<Rightarrow> user_actions);
          cutoff_time = now - timedelta_seconds time_window;
          kept = filter (\<lambda>ts. ts > cutoff_time) (case ua1 uid of None \<Rightarrow> [] | Some l \<Rightarrow> l);
          ua2 = ua1(uid \<mapsto> kept)
      in if int (length kept) \<ge> max_actions then (True, ua2)
         else (False, ua2(uid \<mapsto> kept @ [now])))"

text \<open>A run of checks by one user at the given instants, returning each answer.\<close>

fun rate_checks ::
  "(int \<rightharpoonup> datetime list) \<Rightarrow> int \<Rightarrow> int \<Rightarrow> int \<Rightarrow> datetime list \<Rightarrow> bool list \<times> (int \<rightharpoonup> datetime list)" where
  "rate_checks ua uid m tw [] = ([], ua)"
| "rate_checks ua uid m tw (t # ts) =
     (case is_rate_limited ua t uid m tw of
        (r, ua') \<Rightarrow> (case rate_checks ua' uid m tw ts of (rs, ua'') \<Rightarrow> (r # rs, ua'')))"

section \<open>Strings\<close>

text \<open>
  Message texts are \<open>string\<close>s of 8-bit characters, one per code point (Latin-1 texts).
  \<open>py_isspace\<close> is \<open>str.isspace\<close> on that range, \<open>strip\<close> is \<open>str.strip()\<close>,
  \<open>lower\<close> is \<open>str.lower()\<close> and \<open>contains p s\<close> is \<open>p in s\<close>.
\<close>

definition py_isspace :: "char \<Rightarrow> bool" where
  "py_isspace c = (let n = (of_char c :: nat)
                   in (9 \<le> n \<and> n \<le> 13) \<or> (28 \<le> n \<and> n \<le> 32) \<or> n = 133 \<or> n = 160)"

definition strip :: "string \<Rightarrow> string" where
  "strip s = rev (dropWhile py_isspace (rev (dropWhile py_isspace s)))"

definition lower_char :: "char \<Rightarrow> char" where
  "lower_char c = (let n = (of_char c :: nat)
                   in if (65 \<le> n \<and> n \<le> 90) \<or> (192 \<le> n \<and> n \<le> 222 \<and> n \<noteq> 215)
                      then char_of (n + 32) else c)"

definition lower :: "string \<Rightarrow> string" where
  "lower s = map lower_char s"

fun starts_with :: "string \<Rightarrow> string \<Rightarrow> bool" where
  "starts_with [] s = True"
| "starts_with (p # ps) [] = False"
| "starts_with (p # ps) (c # cs) = (p = c \<and> starts_with ps cs)"

fun contains :: "string \<Rightarrow> string \<Rightarrow> bool" where
  "contains p [] = (p = [])"
| "contains p (c # cs) = (starts_with p (c # cs) \<or> contains p cs)"

text \<open>
  The filter \<open>CommandStart()\<close> of the aiogram library: the first whitespace-separated
  word of the text is \<open>/start\<close>, alone or followed by \<open>@\<close> and a mention; a mention
  that is not empty has to be the bot's own username, compared in lower case, unless
  the bot has none. Arguments after the first word are not looked at.
\<close>

definition first_word :: "string \<Rightarrow> string" where
  "first_word s = takeWhile (\<lambda>c. \<not> py_isspace c) (dropWhile py_isspace s)"

definition is_start_command :: "string \<Rightarrow> string \<Rightarrow> bool" where
  "is_start_command bot_name txt =
     (case first_word txt of
        [] \<Rightarrow> False
      | prefix # rest \<Rightarrow>
          prefix = CHR ''/'' \<and>
          takeWhile (\<lambda>c. c \<noteq> CHR ''@'') rest = ''start'' \<and>
          (let mention = drop 1 (dropWhile (\<lambda>c. c \<noteq> CHR ''@'') rest)
           in mention = [] \<or> bot_name = [] \<or> lower mention = lower bot_name))"

section \<open>Bot state and effects\<close>

text \<open>
  The per-user FSM context of aiogram (current state and the data dictionary), the
  database, the username of the bot's own Telegram account (empty when it has none),
  and a log of what the bot emitted: replies to the actor (\<open>message.answer\<close>,
  \<open>callback.answer\<close>, \<open>edit_text\<close>), \<open>bot.send_message\<close> attempts with their outcome,
  log lines, and an exception that left a handler. Message texts are abstracted to
  constructors carrying the values they interpolate.
\<close>

datatype fsm_state =
    Idle
  | Waiting_for_title | Waiting_for_description | Waiting_for_contact | Waiting_for_category
  | Waiting_for_new_admin_id | Waiting_for_edit_title | Waiting_for_edit_description
  | Waiting_for_edit_contact | Waiting_for_broadcast_message

record fsm_data =
  d_title :: "string option"
  d_description :: "string option"
  d_contact :: "string option"
  d_edit_ad_id :: "int option"
  d_broadcast_text :: "string option"
  d_users :: "user list option"

record fsm_ctx =
  cur_state :: fsm_state
  data :: fsm_data

definition empty_data :: fsm_data where
  "empty_data = \<lparr>d_title = None, d_description = None, d_contact = None,
                  d_edit_ad_id = None, d_broadcast_text = None, d_users = None\<rparr>"

definition idle_ctx :: fsm_ctx where
  "idle_ctx = \<lparr>cur_state = Idle, data = empty_data\<rparr>"

datatype chat = UserChat int | Channel

datatype reply =
    Welcome | DailyLimit | AskTitle | TitleLengthError | AskDescription
  | DescriptionLengthError | AskContact | ContactLengthError | AskCategory
  | AdCreated string string | NoPermission | AdNotFound | AdApproved string
  | AdRejected string | AskNewAdminId | BadNumberFormat | UserNotFound | AlreadyAdmin
  | AdminAdded string int | GenericError | NoAdmins | AdminList "user list"
  | CannotRemoveSuperadmin | AdminRemoved string | AskBroadcast | NoUsers | ConfirmBroadcast string nat
  | BroadcastStarted nat | BroadcastResult nat nat | BroadcastCancelled
  | EditMenu ad | AskNewTitle string | EditTitleLengthError | TitleUpdated string
  | ConfirmDelete string | AdDeleted string

datatype notice =
    NewAdNotice ad | ChannelPost ad | ApprovedNotice string | RejectedNotice string
  | PromotedNotice | DemotedNotice | BroadcastNotice string | EditedNotice string
  | DeletedNotice string

datatype logline =
    NotifyAdminFailed int string | ChannelPostFailed string | BroadcastError int string
  | OldAdsCleaned

datatype py_exception = IndexError | KeyError | AttributeError

datatype effect =
    Reply int reply
  | Sent chat notice "string option"
  | Logged logline
  | Raised py_exception

record world =
  db :: database
  fsm :: "int \<Rightarrow> fsm_ctx"
  out :: "effect list"
  n_sent :: nat
  bot_username :: string

text \<open>
  The delivery channel is outside the program: \<open>env n c\<close> is the outcome of the \<open>n\<close>-th
  \<open>bot.send_message\<close> attempt of the run when it goes to chat \<open>c\<close>: \<open>None\<close> when it is
  delivered, \<open>Some e\<close> when it raises an exception whose \<open>str\<close> is \<open>e\<close>.
  Replies to the actor and database calls are taken to succeed.
\<close>

type_synonym env = "nat \<Rightarrow> chat \<Rightarrow> string option"

definition send_message :: "env \<Rightarrow> chat \<Rightarrow> notice \<Rightarrow> world \<Rightarrow> string option \<times> world" where
  "send_message env c m w =
     (let r = env (n_sent w) c
      in (r, w\<lparr>out := out w @ [Sent c m r], n_sent := Suc (n_sent w)\<rparr>))"

definition reply :: "int \<Rightarrow> reply \<Rightarrow> world \<Rightarrow> world" where
  "reply uid r w = w\<lparr>out := out w @ [Reply uid r]\<rparr>"

definition log_line :: "logline \<Rightarrow> world \<Rightarrow> world" where
  "log_line l w = w\<lparr>out := out w @ [Logged l]\<rparr>"

definition raise :: "py_exception \<Rightarrow> world \<Rightarrow> world" where
  "raise e w = w\<lparr>out := out w @ [Raised e]\<rparr>"

definition set_state :: "int \<Rightarrow> fsm_state \<Rightarrow> world \<Rightarrow> world" where
  "set_state uid s w = w\<lparr>fsm := (fsm w)(uid := (fsm w uid)\<lparr>cur_state := s\<rparr>)\<rparr>"

definition update_data :: "int \<Rightarrow> (fsm_data \<Rightarrow> fsm_data) \<Rightarrow> world \<Rightarrow> world" where
  "update_data uid f w = w\<lparr>fsm := (fsm w)(uid := (fsm w uid)\<lparr>data := f (data (fsm w uid))\<rparr>)\<rparr>"

definition clear_state :: "int \<Rightarrow> world \<Rightarrow> world" where
  "clear_state uid w = w\<lparr>fsm := (fsm w)(uid := idle_ctx)\<rparr>"


section \<open>Role checks (admin.py)\<close>

definition is_admin :: "database \<Rightarrow> int \<Rightarrow> bool" where
  "is_admin d uid =
     (case get_user d uid of None \<Rightarrow> False
      | Some u \<Rightarrow> role u \<in> set [''admin'', ''superadmin''])"

definition is_superadmin :: "database \<Rightarrow> int \<Rightarrow> bool" where
  "is_superadmin d uid =
     (case get_user d uid of None \<Rightarrow> False | Some u \<Rightarrow> role u = ''superadmin'')"

section \<open>Submission wizard (main.py)\<close>

text \<open>
  The category labels stand for the source's eight labels (emoji and apostrophes left
  out). Callback data is taken as parsed: \<open>cat_i\<close> as the integer \<open>i\<close>, \<open>approve_i\<close>
  as the listing id, and so on. List indexing is Python's: negative indices count from
  the end and an index out of range raises.
\<close>

definition CATEGORIES :: "string list" where
  "CATEGORIES = [''Ofis ishi'', ''Qurilish'', ''Restoran/Kafe'', ''Haydovchi'',
                 ''Tibbiyot'', ''IT'', ''Talim'', ''Xizmat'']"

definition py_index :: "'a list \<Rightarrow> int \<Rightarrow> 'a option" where
  "py_index xs i =
     (let n = int (length xs); j = (if i < 0 then n + i else i)
      in if 0 \<le> j \<and> j < n then Some (xs ! nat j) else None)"

definition start_handler :: "datetime \<Rightarrow> int \<Rightarrow> string \<Rightarrow> world \<Rightarrow> world" where
  "start_handler now uid name w =
     (let w1 = (case get_user (db w) uid of
                  None \<Rightarrow> w\<lparr>db := create_user (db w) now uid
                                   (if name = [] then ''No name'' else name) ''user''\<rparr>
                | Some u \<Rightarrow> w)
      in reply uid Welcome w1)"

definition create_ad_handler :: "datetime \<Rightarrow> int \<Rightarrow> world \<Rightarrow> world" where
  "create_ad_handler now uid w =
     (if length (get_user_ads_today (db w) now uid) \<ge> 3
      then reply uid DailyLimit w
      else reply uid AskTitle (set_state uid Waiting_for_title w))"

definition process_title :: "int \<Rightarrow> string \<Rightarrow> world \<Rightarrow> world" where
  "process_title uid txt w =
     (if length txt < 5 \<or> length txt > 100
      then reply uid TitleLengthError w
      else reply uid AskDescription
             (set_state uid Waiting_for_description
               (update_data uid (\<lambda>d. d\<lparr>d_title := Some txt\<rparr>) w)))"

definition process_description :: "int \<Rightarrow> string \<Rightarrow> world \<Rightarrow> world" where
  "process_description uid txt w =
     (if length txt < 10 \<or> length txt > 1000
      then reply uid DescriptionLengthError w
      else reply uid AskContact
             (set_state uid Waiting_for_contact
               (update_data uid (\<lambda>d. d\<lparr>d_description := Some txt\<rparr>) w)))"

definition process_contact :: "int \<Rightarrow> string \<Rightarrow> world \<Rightarrow> world" where
  "process_contact uid txt w =
     (if length txt < 5 \<or> length txt > 50
      then reply uid ContactLengthError w
      else reply uid AskCategory
             (set_state uid Waiting_for_category
               (update_data uid (\<lambda>d. d\<lparr>d_contact := Some txt\<rparr>) w)))"

fun notify_loop :: "env \<Rightarrow> notice \<Rightarrow> user list \<Rightarrow> world \<Rightarrow> world" where
  "notify_loop env m [] w = w"
| "notify_loop env m (u # us) w =
     (case send_message env (UserChat (telegram_id u)) m w of
        (None, w1) \<Rightarrow> notify_loop env m us w1
      | (Some e, w1) \<Rightarrow> notify_loop env m us (log_line (NotifyAdminFailed (telegram_id u) e) w1))"

definition notify_admins_about_new_ad :: "env \<Rightarrow> int \<Rightarrow> world \<Rightarrow> world" where
  "notify_admins_about_new_ad env i w =
     (case get_ad (db w) i of
        None \<Rightarrow> w
      | Some a \<Rightarrow>
          (case get_user (db w) (user_id a) of
             None \<Rightarrow> raise AttributeError w
           | Some u \<Rightarrow> notify_loop env (NewAdNotice a) (get_admins (db w)) w))"

definition process_category :: "env \<Rightarrow> datetime \<Rightarrow> int \<Rightarrow> int \<Rightarrow> world \<Rightarrow> world" where
  "process_category env now uid idx w =
     (case py_index CATEGORIES idx of
        None \<Rightarrow> raise IndexError w
      | Some cat \<Rightarrow>
          (let dt = data (fsm w uid)
           in case (d_title dt, d_description dt, d_contact dt) of
                (Some t, Some ds, Some c) \<Rightarrow>
                  (case create_ad (db w) now uid t ds cat c ''pending'' of
                     (i, d') \<Rightarrow>
                       notify_admins_about_new_ad env i
                         (reply uid (AdCreated t cat) (clear_state uid (w\<lparr>db := d'\<rparr>))))
              | _ \<Rightarrow> raise KeyError w))"

section \<open>Moderation (main.py)\<close>

definition post_ad_to_channel :: "env \<Rightarrow> ad \<Rightarrow> world \<Rightarrow> world" where
  "post_ad_to_channel env a w =
     (case send_message env Channel (ChannelPost a) w of
        (None, w1) \<Rightarrow> w1
      | (Some e, w1) \<Rightarrow> log_line (ChannelPostFailed e) w1)"

definition approve_ad_callback :: "env \<Rightarrow> datetime \<Rightarrow> int \<Rightarrow> int \<Rightarrow> world \<Rightarrow> world" where
  "approve_ad_callback env now uid i w =
     (if \<not> is_admin (db w) uid then reply uid NoPermission w
      else case get_ad (db w) i of
        None \<Rightarrow> reply uid AdNotFound w
      | Some a \<Rightarrow>
          (let w1 = w\<lparr>db := snd (update_ad_status (db w) now i ''approved'' None)\<rparr>;
               w2 = post_ad_to_channel env a w1;
               w3 = reply uid (AdApproved (title a)) w2
           in snd (send_message env (UserChat (user_id a)) (ApprovedNotice (title a)) w3)))"

definition reject_ad_callback :: "env \<Rightarrow> datetime \<Rightarrow> int \<Rightarrow> int \<Rightarrow> world \<Rightarrow> world" where
  "reject_ad_callback env now uid i w =
     (if \<not> is_admin (db w) uid then reply uid NoPermission w
      else case get_ad (db w) i of
        None \<Rightarrow> reply uid AdNotFound w
      | Some a \<Rightarrow>
          (let w1 = w\<lparr>db := snd (update_ad_status (db w) now i ''rejected'' None)\<rparr>;
               w2 = reply uid (AdRejected (title a)) w1
           in snd (send_message env (UserChat (user_id a)) (RejectedNotice (title a)) w2)))"

text \<open>One cycle of the background task \<open>cleanup_old_ads\<close>.\<close>

definition cleanup_old_ads :: "datetime \<Rightarrow> world \<Rightarrow> world" where
  "cleanup_old_ads now w =
     log_line OldAdsCleaned (w\<lparr>db := snd (db_cleanup_old_ads (db w) now)\<rparr>)"

section \<open>Admin handlers (admin.py)\<close>

text \<open>
  \<open>process_new_admin_id\<close> receives the result of \<open>int(message.text.strip())\<close>:
  \<open>None\<close> stands for the \<open>ValueError\<close> branch.
\<close>

definition handle_add_admin :: "int \<Rightarrow> world \<Rightarrow> world" where
  "handle_add_admin uid w =
     (if \<not> is_superadmin (db w) uid then reply uid NoPermission w
      else reply uid AskNewAdminId (set_state uid Waiting_for_new_admin_id w))"

definition process_new_admin_id :: "env \<Rightarrow> int \<Rightarrow> int option \<Rightarrow> world \<Rightarrow> world" where
  "process_new_admin_id env uid parsed w =
     (case parsed of
        None \<Rightarrow> reply uid BadNumberFormat w
      | Some admin_id \<Rightarrow>
          (case get_user (db w) admin_id of
             None \<Rightarrow> reply uid UserNotFound w
           | Some u \<Rightarrow>
               if role u \<in> set [''admin'', ''superadmin''] then reply uid AlreadyAdmin w
               else (case update_user_role (db w) admin_id ''admin'' of
                       (True, d') \<Rightarrow>
                         clear_state uid
                           (snd (send_message env (UserChat admin_id) PromotedNotice
                                  (reply uid (AdminAdded (full_name u) admin_id) (w\<lparr>db := d'\<rparr>))))
                     | (False, d') \<Rightarrow>
                         clear_state uid (reply uid GenericError (w\<lparr>db := d'\<rparr>)))))"

definition handle_list_admins :: "int \<Rightarrow> world \<Rightarrow> world" where
  "handle_list_admins uid w =
     (if \<not> is_superadmin (db w) uid then reply uid NoPermission w
      else if get_admins (db w) = [] then reply uid NoAdmins w
      else reply uid (AdminList (get_admins (db w))) w)"

definition handle_remove_admin :: "env \<Rightarrow> int \<Rightarrow> int \<Rightarrow> world \<Rightarrow> world" where
  "handle_remove_admin env uid admin_id w =
     (if \<not> is_superadmin (db w) uid then reply uid NoPermission w
      else case get_user (db w) admin_id of
        None \<Rightarrow> reply uid UserNotFound w
      | Some u \<Rightarrow>
          if role u = ''superadmin'' then reply uid CannotRemoveSuperadmin w
          else (case update_user_role (db w) admin_id ''user'' of
                  (True, d') \<Rightarrow>
                    handle_list_admins uid
                      (snd (send_message env (UserChat admin_id) DemotedNotice
                             (reply uid (AdminRemoved (full_name u)) (w\<lparr>db := d'\<rparr>))))
                | (False, d') \<Rightarrow> reply uid GenericError (w\<lparr>db := d'\<rparr>)))"

definition handle_broadcast_start :: "int \<Rightarrow> world \<Rightarrow> world" where
  "handle_broadcast_start uid w =
     (if \<not> is_superadmin (db w) uid then reply uid NoPermission w
      else reply uid AskBroadcast (set_state uid Waiting_for_broadcast_message w))"

text \<open>
  After the role check \<open>process_broadcast_message\<close> calls \<open>self.db.get_all_users()\<close>.
  Class \<open>Database\<close> has no such method, so the attribute lookup raises
  \<open>AttributeError\<close> and the handler ends there: the lines after it (storing the text
  and the users in the FSM data, asking for confirmation) are never reached.
\<close>

definition process_broadcast_message :: "int \<Rightarrow> string \<Rightarrow> world \<Rightarrow> world" where
  "process_broadcast_message uid txt w =
     (if \<not> is_superadmin (db w) uid then w
      else raise AttributeError w)"

fun broadcast_loop :: "env \<Rightarrow> string \<Rightarrow> user list \<Rightarrow> nat \<times> nat \<times> world \<Rightarrow> nat \<times> nat \<times> world" where
  "broadcast_loop env txt [] acc = acc"
| "broadcast_loop env txt (u # us) (success_count, failed_count, w) =
     (case send_message env (UserChat (telegram_id u)) (BroadcastNotice txt) w of
        (None, w1) \<Rightarrow> broadcast_loop env txt us (Suc success_count, failed_count, w1)
      | (Some e, w1) \<Rightarrow>
          broadcast_loop env txt us
            (success_count, Suc failed_count,
             if \<not> contains ''bot was blocked'' (lower e)
             then log_line (BroadcastError (telegram_id u) e) w1 else w1))"

definition handle_confirm_broadcast :: "env \<Rightarrow> int \<Rightarrow> world \<Rightarrow> world" where
  "handle_confirm_broadcast env uid w =
     (let dt = data (fsm w uid);
          broadcast_text = (case d_broadcast_text dt of None \<Rightarrow> ''None'' | Some t \<Rightarrow> t);
          us = (case d_users dt of None \<Rightarrow> [] | Some l \<Rightarrow> l);
          w1 = reply uid (BroadcastStarted (length us)) w
      in case broadcast_loop env broadcast_text us (0, 0, w1) of
           (success_count, failed_count, w2) \<Rightarrow>
             clear_state uid (reply uid (BroadcastResult success_count failed_count) w2))"

definition handle_cancel_broadcast :: "int \<Rightarrow> world \<Rightarrow> world" where
  "handle_cancel_broadcast uid w = clear_state uid (reply uid BroadcastCancelled w)"

definition handle_edit_ad :: "int \<Rightarrow> int \<Rightarrow> world \<Rightarrow> world" where
  "handle_edit_ad uid i w =
     (if \<not> is_admin (db w) uid then reply uid NoPermission w
      else case get_ad (db w) i of
        None \<Rightarrow> reply uid AdNotFound w
      | Some a \<Rightarrow> reply uid (EditMenu a) w)"

definition handle_edit_title :: "int \<Rightarrow> int \<Rightarrow> world \<Rightarrow> world" where
  "handle_edit_title uid i w =
     (if \<not> is_admin (db w) uid then reply uid NoPermission w
      else case get_ad (db w) i of
        None \<Rightarrow> reply uid AdNotFound w
      | Some a \<Rightarrow>
          reply uid (AskNewTitle (title a))
            (update_data uid (\<lambda>d. d\<lparr>d_edit_ad_id := Some i\<rparr>)
              (set_state uid Waiting_for_edit_title w)))"

definition process_edit_title :: "env \<Rightarrow> int \<Rightarrow> string \<Rightarrow> world \<Rightarrow> world" where
  "process_edit_title env uid txt w =
     (if \<not> is_admin (db w) uid then w
      else if \<not> truthy_int (d_edit_ad_id (data (fsm w uid)))
      then clear_state uid (reply uid GenericError w)
      else let i = the (d_edit_ad_id (data (fsm w uid)));
               new_title = strip txt
           in if length new_title < 5 \<or> length new_title > 100
              then reply uid EditTitleLengthError w
              else (case update_ad (db w) i (Some new_title) None None of
                      (True, d') \<Rightarrow>
                        (let w1 = reply uid (TitleUpdated new_title) (w\<lparr>db := d'\<rparr>);
                             w2 = (case get_ad d' i of
                                     None \<Rightarrow> w1
                                   | Some a \<Rightarrow>
                                       snd (send_message env (UserChat (user_id a))
                                              (EditedNotice new_title) w1))
                         in clear_state uid w2)
                    | (False, d') \<Rightarrow> clear_state uid (reply uid GenericError (w\<lparr>db := d'\<rparr>))))"

definition handle_delete_ad :: "int \<Rightarrow> int \<Rightarrow> world \<Rightarrow> world" where
  "handle_delete_ad uid i w =
     (if \<not> is_admin (db w) uid then reply uid NoPermission w
      else case get_ad (db w) i of
        None \<Rightarrow> reply uid AdNotFound w
      | Some a \<Rightarrow> reply uid (ConfirmDelete (title a)) w)"

definition handle_confirm_delete :: "env \<Rightarrow> int \<Rightarrow> int \<Rightarrow> world \<Rightarrow> world" where
  "handle_confirm_delete env uid i w =
     (case get_ad (db w) i of
        None \<Rightarrow> reply uid AdNotFound w
      | Some a \<Rightarrow>
          (case delete_ad (db w) i of
             (True, d') \<Rightarrow>
               snd (send_message env (UserChat (user_id a)) (DeletedNotice (title a))
                     (reply uid (AdDeleted (title a)) (w\<lparr>db := d'\<rparr>)))
           | (False, d') \<Rightarrow> reply uid GenericError (w\<lparr>db := d'\<rparr>)))"

section \<open>Events\<close>

text \<open>
  One event is one invocation of a handler. A text message carries the sender's id and
  full name and the text, and is routed as main.py registers its handlers: a \<open>/start\<close>
  command reaches \<open>start_handler\<close> in every state (it is registered first, with no
  state filter), then the text of the create button reaches \<open>create_ad_handler\<close> in
  every state, and any other text is routed to the wizard's steps by the FSM state of
  the sender and reaches none of them in any other state. \<open>Start uid name\<close> is the
  bare command \<open>/start\<close> and \<open>CreateAdPressed uid\<close> the button's text, which is no text
  of 8-bit characters. The handlers of admin.py carry no registration in the source
  and are invoked directly. The display-only handlers (own listings,
  pending list, statistics, admin menu, listing details) change nothing and are left out.
\<close>

datatype event =
    Start int string
  | CreateAdPressed int
  | TextMessage int string string
  | CategoryChosen int int
  | Approve int int
  | Reject int int
  | CleanupCycle
  | AddAdmin int
  | NewAdminId int "int option"
  | ListAdmins int
  | RemoveAdmin int int
  | BroadcastStart int
  | BroadcastMessage int string
  | ConfirmBroadcastPressed int
  | CancelBroadcast int
  | EditAd int int
  | EditTitle int int
  | EditTitleText int string
  | DeleteAd int int
  | ConfirmDeletePressed int int

fun step :: "env \<Rightarrow> datetime \<Rightarrow> event \<Rightarrow> world \<Rightarrow> world" where
  "step env now (Start uid name) w = start_handler now uid name w"
| "step env now (CreateAdPressed uid) w = create_ad_handler now uid w"
| "step env now (TextMessage uid name txt) w =
     (if is_start_command (bot_username w) txt then start_handler now uid name w
      else case cur_state (fsm w uid) of
        Waiting_for_title \<Rightarrow> process_title uid txt w
      | Waiting_for_description \<Rightarrow> process_description uid txt w
      | Waiting_for_contact \<Rightarrow> process_contact uid txt w
      | _ \<Rightarrow> w)"
| "step env now (CategoryChosen uid idx) w = process_category env now uid idx w"
| "step env now (Approve uid i) w = approve_ad_callback env now uid i w"
| "step env now (Reject uid i) w = reject_ad_callback env now uid i w"
| "step env now CleanupCycle w = cleanup_old_ads now w"
| "step env now (AddAdmin uid) w = handle_add_admin uid w"
| "step env now (NewAdminId uid parsed) w = process_new_admin_id env uid parsed w"
| "step env now (ListAdmins uid) w = handle_list_admins uid w"
| "step env now (RemoveAdmin uid admin_id) w = handle_remove_admin env uid admin_id w"
| "step env now (BroadcastStart uid) w = handle_broadcast_start uid w"
| "step env now (BroadcastMessage uid txt) w = process_broadcast_message uid txt w"
| "step env now (ConfirmBroadcastPressed uid) w = handle_confirm_broadcast env uid w"
| "step env now (CancelBroadcast uid) w = handle_cancel_broadcast uid w"
| "step env now (EditAd uid i) w = handle_edit_ad uid i w"
| "step env now (EditTitle uid i) w = handle_edit_title uid i w"
| "step env now (EditTitleText uid txt) w = process_edit_title env uid txt w"
| "step env now (DeleteAd uid i) w = handle_delete_ad uid i w"
| "step env now (ConfirmDeletePressed uid i) w = handle_confirm_delete env uid i w"

text \<open>A run: timed events applied in order.\<close>

fun run :: "env \<Rightarrow> (datetime \<times> event) list \<Rightarrow> world \<Rightarrow> world" where
  "run env [] w = w"
| "run env ((now, e) # es) w = run env es (step env now e w)"

text \<open>
  The state after \<open>init_db\<close> on an empty store: the seeded superadmin and nothing else,
  for a bot whose account is named \<open>ishbor_bot\<close>.
\<close>

definition SUPERADMIN_ID :: int where
  "SUPERADMIN_ID = 123456789"

definition init_world :: "datetime \<Rightarrow> world" where
  "init_world now =
     \<lparr>db = \<lparr>users = [\<lparr>telegram_id = SUPERADMIN_ID, full_name = ''SuperAdmin'',
                      role = ''superadmin'', user_created_at = now, is_blocked = False\<rparr>],
            ads = [], next_ad_id = 1\<rparr>,
      fsm = (\<lambda>uid. idle_ctx), out = [], n_sent = 0, bot_username = ''ishbor_bot''\<rparr>"


section \<open>Observations on the effect log\<close>

text \<open>
  \<open>refused_with uid r w w'\<close>: the handler answered the actor with \<open>r\<close> and did nothing
  else: the database and every FSM context are as before. \<open>is_publish\<close> recognises a
  post to the public channel, \<open>sends\<close> lists the \<open>bot.send_message\<close> attempts (chat and
  content) and \<open>logged\<close> the log lines of an effect log, in order.
  \<open>send_outcomes env n us\<close> are the outcomes of sending to the users \<open>us\<close> one after the
  other when \<open>n\<close> attempts were made before, and \<open>failure_log\<close> is the line one failed
  attempt leaves in the log.
\<close>

definition refused_with :: "int \<Rightarrow> reply \<Rightarrow> world \<Rightarrow> world \<Rightarrow> bool" where
  "refused_with uid r w w' =
     (db w' = db w \<and> fsm w' = fsm w \<and> out w' = out w @ [Reply uid r] \<and>
      n_sent w' = n_sent w \<and> bot_username w' = bot_username w)"

fun is_publish :: "effect \<Rightarrow> bool" where
  "is_publish (Sent Channel (ChannelPost a) r) = True"
| "is_publish e = False"

fun sends :: "effect list \<Rightarrow> (chat \<times> notice) list" where
  "sends [] = []"
| "sends (Sent c m r # es) = (c, m) # sends es"
| "sends (e # es) = sends es"

fun logged :: "effect list \<Rightarrow> logline list" where
  "logged [] = []"
| "logged (Logged l # es) = l # logged es"
| "logged (e # es) = logged es"

definition send_outcomes :: "env \<Rightarrow> nat \<Rightarrow> user list \<Rightarrow> string option list" where
  "send_outcomes env n us = map (\<lambda>(k, u). env k (UserChat (telegram_id u))) (enumerate n us)"

fun failure_log :: "user \<times> string option \<Rightarrow> logline list" where
  "failure_log (u, None) = []"
| "failure_log (u, Some e) =
     (if contains ''bot was blocked'' (lower e) then [] else [BroadcastError (telegram_id u) e])"

text \<open>
  A listing submitted through the wizard at instant \<open>t\<close> by user \<open>uid\<close>, whose full
  name is \<open>name\<close>.
\<close>

definition submission :: "datetime \<Rightarrow> int \<Rightarrow> string \<Rightarrow> (datetime \<times> event) list" where
  "submission t uid name =
     [(t, CreateAdPressed uid), (t, TextMessage uid name ''Python dasturchi''),
      (t, TextMessage uid name ''Tajribali Python dasturchi kerak, maosh kelishiladi''),
      (t, TextMessage uid name ''+998901234567''), (t, CategoryChosen uid 5)]"

text \<open>
  \<open>status_step_ok e d a a'\<close>: what event \<open>e\<close>, arriving in database state \<open>d\<close>, may do to
  the status of the stored listing \<open>a\<close>, whose new version is \<open>a'\<close>: keep it, or set it
  to \<open>approved\<close> (\<open>rejected\<close>) when \<open>e\<close> is an approve (a reject) of this listing by an
  admin.
\<close>

definition status_step_ok :: "event \<Rightarrow> database \<Rightarrow> ad \<Rightarrow> ad \<Rightarrow> bool" where
  "status_step_ok e d a a' =
     (status a' = status a \<or>
      (case e of
         Approve uid i \<Rightarrow> is_admin d uid \<and> i = ad_id a \<and> status a' = ''approved''
       | Reject uid i \<Rightarrow> is_admin d uid \<and> i = ad_id a \<and> status a' = ''rejected''
       | _ \<Rightarrow> False))"

section \<open>Verification\<close>



section \<open>Status updates in the store\<close>

lemma set_ad_status_frame:
  "set_ad_status now st by a =
     a\<lparr>status := status (set_ad_status now st by a),
       approved_by := approved_by (set_ad_status now st by a),
       approved_at := approved_at (set_ad_status now st by a)\<rparr>"
  by (simp add: set_ad_status_def Let_def)

lemma set_ad_status_approver:
  "approved_by (set_ad_status now st by a) \<noteq> approved_by a \<or>
   approved_at (set_ad_status now st by a) \<noteq> approved_at a \<Longrightarrow>
   st = ''approved'' \<and> by \<noteq> None"
  by (auto simp add: set_ad_status_def Let_def truthy_int_def split: if_splits option.splits)

text \<open>
  C10. A status update leaves the users, the id counter and the number and order of the
  listings as they are. Each listing keeps every field other than \<open>status\<close>,
  \<open>approved_by\<close> and \<open>approved_at\<close>; the approver or the approval time of a listing
  changes only when the new status is \<open>approved\<close>, an approver was supplied and the
  listing is the one addressed; a status of \<open>rejected\<close> leaves both as they were.
\<close>

theorem update_ad_status_frame:
  assumes "update_ad_status d now i st by = (ok, d')"
  shows "users d' = users d \<and> next_ad_id d' = next_ad_id d \<and>
         length (ads d') = length (ads d) \<and>
         (\<forall>k < length (ads d).
            ads d' ! k = (ads d ! k)\<lparr>status := status (ads d' ! k),
                                     approved_by := approved_by (ads d' ! k),
                                     approved_at := approved_at (ads d' ! k)\<rparr> \<and>
            (approved_by (ads d' ! k) \<noteq> approved_by (ads d ! k) \<or>
             approved_at (ads d' ! k) \<noteq> approved_at (ads d ! k)
               \<longrightarrow> st = ''approved'' \<and> by \<noteq> None \<and> ad_id (ads d ! k) = i) \<and>
            (st = ''rejected'' \<longrightarrow>
               approved_by (ads d' ! k) = approved_by (ads d ! k) \<and>
               approved_at (ads d' ! k) = approved_at (ads d ! k)))"
proof (cases "get_ad d i")
  case None
  with assms have "d' = d" by (simp add: update_ad_status_def)
  then show ?thesis by simp
next
  case (Some a0)
  let ?f = "\<lambda>a. if ad_id a = i then set_ad_status now st by a else a"
  from Some assms have d': "d' = d\<lparr>ads := map ?f (ads d)\<rparr>"
    by (auto simp add: update_ad_status_def)
  have row: "ads d' ! k = ?f (ads d ! k)" if "k < length (ads d)" for k
    using that by (simp add: d')
  have rej: "st = ''rejected'' \<Longrightarrow> approved_by (?f a) = approved_by a \<and> approved_at (?f a) = approved_at a" for a
    by (simp add: set_ad_status_def Let_def)
  show ?thesis
  proof (intro conjI allI impI)
    fix k assume k: "k < length (ads d)"
    show "ads d' ! k = (ads d ! k)\<lparr>status := status (ads d' ! k),
                                     approved_by := approved_by (ads d' ! k),
                                     approved_at := approved_at (ads d' ! k)\<rparr>"
      using set_ad_status_frame[of now st "by" "ads d ! k"] by (simp add: row[OF k])
  next
    fix k assume k: "k < length (ads d)"
      and ch: "approved_by (ads d' ! k) \<noteq> approved_by (ads d ! k) \<or>
             approved_at (ads d' ! k) \<noteq> approved_at (ads d ! k)"
    then have m: "ad_id (ads d ! k) = i" by (auto simp add: row[OF k] split: if_splits)
    with ch k have "approved_by (set_ad_status now st by (ads d ! k)) \<noteq> approved_by (ads d ! k) \<or>
      approved_at (set_ad_status now st by (ads d ! k)) \<noteq> approved_at (ads d ! k)"
      by (simp add: row[OF k])
    from set_ad_status_approver[OF this] m
    show "st = ''approved''" "by \<noteq> None" "ad_id (ads d ! k) = i" by simp_all
  next
    fix k assume k: "k < length (ads d)" and r: "st = ''rejected''"
    show "approved_by (ads d' ! k) = approved_by (ads d ! k)"
         "approved_at (ads d' ! k) = approved_at (ads d ! k)"
      using rej[OF r, of "ads d ! k"] by (simp_all add: row[OF k])
  qed (simp_all add: d')
qed


theorem update_ad_status_frame_witness:
  "(let d = \<lparr>users = [], ads = [\<lparr>ad_id = 1, user_id = 5, title = ''Kassir'',
              description = ''Kassir kerak'', category = ''IT'', contact = ''+998901234567'',
              status = ''approved'', created_at = 0, expires_at = 604800000000,
              approved_by = Some 7, approved_at = Some 50\<rparr>], next_ad_id = 2\<rparr>;
        r = update_ad_status d 900 1 ''rejected'' None
    in fst r \<and> status (ads (snd r) ! 0) = ''rejected'' \<and>
       approved_by (ads (snd r) ! 0) = Some 7 \<and> approved_at (ads (snd r) ! 0) = Some 50)"
  using update_ad_status_frame
    [of "\<lparr>users = [], ads = [\<lparr>ad_id = 1, user_id = 5, title = ''Kassir'',
              description = ''Kassir kerak'', category = ''IT'', contact = ''+998901234567'',
              status = ''approved'', created_at = 0, expires_at = 604800000000,
              approved_by = Some 7, approved_at = Some 50\<rparr>], next_ad_id = 2\<rparr>"
        900 1 "''rejected''" None True]
  by (simp add: update_ad_status_def get_ad_def set_ad_status_def Let_def)

section \<open>Retention sweep\<close>

text \<open>
  C3. A listing created at instant 0 expires after seven days. A sweep at day eight, when
  the expiry lies one day in the past, deletes nothing and keeps the listing: the sweep
  compares \<open>expires_at\<close> with the instant seven days before now.
\<close>

theorem cleanup_keeps_listing_expired_a_day_ago:
  "(let d = snd (create_ad \<lparr>users = [], ads = [], next_ad_id = 1\<rparr> 0 5 ''Kassir''
                   ''Kassir kerak'' ''IT'' ''+998901234567'' ''pending'');
        now = timedelta_days 8
    in map expires_at (ads d) = [timedelta_days 7] \<and> timedelta_days 7 < now \<and>
       db_cleanup_old_ads d now = (0, d))"
  by (simp add: create_ad_def db_cleanup_old_ads_def timedelta_days_def Let_def)

lemma cleanup_old_ads_rows:
  "ads (snd (db_cleanup_old_ads d now)) =
     filter (\<lambda>a. now - timedelta_days 7 \<le> expires_at a) (ads d)"
  by (simp add: db_cleanup_old_ads_def Let_def not_less)

lemma cleanup_keeps_unexpired:
  "a \<in> set (ads d) \<Longrightarrow> now \<le> expires_at a \<Longrightarrow>
   a \<in> set (ads (snd (db_cleanup_old_ads d now)))"
  by (simp add: cleanup_old_ads_rows timedelta_days_def)

section \<open>Rate limiter\<close>

lemma rate_checks_Cons:
  "rate_checks ua uid m tw (t # ts) =
     (fst (is_rate_limited ua t uid m tw) #
        fst (rate_checks (snd (is_rate_limited ua t uid m tw)) uid m tw ts),
      snd (rate_checks (snd (is_rate_limited ua t uid m tw)) uid m tw ts))"
  by (simp split: prod.splits)

lemma is_rate_limited_step:
  "is_rate_limited ua now uid m tw =
     (let kept = filter (\<lambda>ts. now - timedelta_seconds tw < ts)
                   (case ua uid of None \<Rightarrow> [] | Some l \<Rightarrow> l)
      in if m \<le> int (length kept) then (True, ua(uid \<mapsto> kept))
         else (False, ua(uid \<mapsto> kept @ [now])))"
  by (simp add: is_rate_limited_def Let_def split: option.splits)

lemma rate_checks_in_window:
  assumes "\<forall>t \<in> set ts. \<forall>x \<in> set l \<union> set ts. t - timedelta_seconds tw < x"
    and "ua uid = Some l \<or> (ua uid = None \<and> l = [])"
  shows "fst (rate_checks ua uid m tw ts) = map (\<lambda>k. m \<le> int (length l + k)) [0..<length ts]"
  using assms
proof (induction ts arbitrary: ua l)
  case Nil
  then show ?case by simp
next
  case (Cons t ts)
  have st: "(case ua uid of None \<Rightarrow> [] | Some l \<Rightarrow> l) = l" using Cons.prems(2) by auto
  have kept: "filter (\<lambda>x. t - timedelta_seconds tw < x) l = l"
    using Cons.prems(1) by (auto simp add: filter_id_conv)
  have w1: "\<forall>s \<in> set ts. \<forall>x \<in> set l \<union> set ts. s - timedelta_seconds tw < x"
    using Cons.prems(1) by simp
  have w2: "\<forall>s \<in> set ts. \<forall>x \<in> set (l @ [t]) \<union> set ts. s - timedelta_seconds tw < x"
    using Cons.prems(1) by simp
  have shift: "map f [0..<Suc n] = f 0 # map (\<lambda>k. f (Suc k)) [0..<n]" for f :: "nat \<Rightarrow> bool" and n
    by (simp add: map_upt_Suc del: upt_Suc)
  show ?case
  proof (cases "m \<le> int (length l)")
    case True
    have step: "is_rate_limited ua t uid m tw = (True, ua(uid \<mapsto> l))"
      by (simp add: is_rate_limited_step st kept True)
    have u: "(ua(uid \<mapsto> l)) uid = Some l \<or> ((ua(uid \<mapsto> l)) uid = None \<and> l = [])" by simp
    have ih: "fst (rate_checks (ua(uid \<mapsto> l)) uid m tw ts) = map (\<lambda>k. m \<le> int (length l + k)) [0..<length ts]"
      by (rule Cons.IH[where ua="ua(uid \<mapsto> l)" and l=l, OF w1 u])
    have eq: "map (\<lambda>k. m \<le> int (length l + k)) [0..<length ts] = map (\<lambda>k. m \<le> int (length l + Suc k)) [0..<length ts]"
      using True by auto
    show ?thesis
      unfolding rate_checks_Cons step fst_conv snd_conv ih eq length_Cons shift
      using True by simp
  next
    case False
    have step: "is_rate_limited ua t uid m tw = (False, ua(uid \<mapsto> l @ [t]))"
      by (simp add: is_rate_limited_step st kept False)
    have u: "(ua(uid \<mapsto> l @ [t])) uid = Some (l @ [t]) \<or> ((ua(uid \<mapsto> l @ [t])) uid = None \<and> l @ [t] = [])" by simp
    have ih: "fst (rate_checks (ua(uid \<mapsto> l @ [t])) uid m tw ts) = map (\<lambda>k. m \<le> int (length (l @ [t]) + k)) [0..<length ts]"
      by (rule Cons.IH[where ua="ua(uid \<mapsto> l @ [t])" and l="l @ [t]", OF w2 u])
    show ?thesis
      unfolding rate_checks_Cons step fst_conv snd_conv ih length_Cons shift
      using False by simp
  qed
qed

lemma rate_checks_stored:
  assumes "\<forall>t \<in> set ts. \<forall>x \<in> set l \<union> set ts. t - timedelta_seconds tw < x"
    and "ua uid = Some l \<or> (ua uid = None \<and> l = [])"
    and "ts \<noteq> []"
  shows "snd (rate_checks ua uid m tw ts) uid = Some (l @ take (nat (m - int (length l))) ts)"
  using assms
proof (induction ts arbitrary: ua l)
  case Nil
  then show ?case by simp
next
  case (Cons t ts)
  have st: "(case ua uid of None \<Rightarrow> [] | Some l \<Rightarrow> l) = l" using Cons.prems(2) by auto
  have kept: "filter (\<lambda>x. t - timedelta_seconds tw < x) l = l"
    using Cons.prems(1) by (auto simp add: filter_id_conv)
  have w1: "\<forall>s \<in> set ts. \<forall>x \<in> set l \<union> set ts. s - timedelta_seconds tw < x"
    using Cons.prems(1) by simp
  have w2: "\<forall>s \<in> set ts. \<forall>x \<in> set (l @ [t]) \<union> set ts. s - timedelta_seconds tw < x"
    using Cons.prems(1) by simp
  show ?case
  proof (cases "m \<le> int (length l)")
    case True
    have step: "is_rate_limited ua t uid m tw = (True, ua(uid \<mapsto> l))"
      by (simp add: is_rate_limited_step st kept True)
    have u: "(ua(uid \<mapsto> l)) uid = Some l \<or> ((ua(uid \<mapsto> l)) uid = None \<and> l = [])" by simp
    have z: "nat (m - int (length l)) = 0" using True by simp
    have r: "snd (rate_checks (ua(uid \<mapsto> l)) uid m tw ts) uid = Some l"
    proof (cases "ts = []")
      case True then show ?thesis by simp
    next
      case False
      show ?thesis
        unfolding Cons.IH[where ua="ua(uid \<mapsto> l)" and l=l, OF w1 u False] z by simp
    qed
    show ?thesis unfolding rate_checks_Cons step fst_conv snd_conv r z by simp
  next
    case False
    have step: "is_rate_limited ua t uid m tw = (False, ua(uid \<mapsto> l @ [t]))"
      by (simp add: is_rate_limited_step st kept False)
    have u: "(ua(uid \<mapsto> l @ [t])) uid = Some (l @ [t]) \<or> ((ua(uid \<mapsto> l @ [t])) uid = None \<and> l @ [t] = [])" by simp
    from False obtain j where j: "nat (m - int (length l)) = Suc j" and j': "nat (m - int (length (l @ [t]))) = j"
      by (cases "nat (m - int (length l))") (auto simp add: nat_eq_iff)
    have r: "snd (rate_checks (ua(uid \<mapsto> l @ [t])) uid m tw ts) uid = Some ((l @ [t]) @ take j ts)"
    proof (cases "ts = []")
      case True then show ?thesis by simp
    next
      case False
      show ?thesis
        unfolding Cons.IH[where ua="ua(uid \<mapsto> l @ [t])" and l="l @ [t]", OF w2 u False] j' by simp
    qed
    show ?thesis unfolding rate_checks_Cons step fst_conv snd_conv r j by simp
  qed
qed


lemma results_at_limit:
  "map (\<lambda>k. int n \<le> int (length ([]::int list) + k)) [0..<Suc n] = replicate n False @ [True]"
proof -
  have "map (\<lambda>k. n \<le> k) [0..<n] = replicate n False"
    by (simp add: list_eq_iff_nth_eq)
  then show ?thesis by simp
qed

lemma sorted_span_window:
  fixes ts :: "int list"
  assumes "sorted ts" and "last ts - hd ts < d"
  shows "\<forall>t \<in> set ts. \<forall>x \<in> set ([] :: int list) \<union> set ts. t - d < x"
proof (intro ballI)
  fix t x assume t: "t \<in> set ts" and "x \<in> set [] \<union> set ts"
  then have x: "x \<in> set ts" by simp
  from t have ne: "ts \<noteq> []" by auto
  have "sorted zs \<Longrightarrow> z \<in> set zs \<Longrightarrow> z \<le> last zs" for z :: int and zs
    by (induction zs) auto
  then have "t \<le> last ts" using assms(1) t by simp
  moreover have "hd ts \<le> x" using assms(1) x ne by (cases ts) auto
  ultimately show "t - d < x" using assms(2) by linarith
qed

text \<open>
  C6. A check keeps the user's timestamps that lie inside the window, answers "limited"
  and records nothing when at least \<open>max_actions\<close> remain, and otherwise records the
  instant and answers "allowed". For a user with no history, \<open>n\<close> checks followed by
  one more, all inside one window, are allowed \<open>n\<close> times and then limited; a check
  made once the window has passed since the first of them is allowed again.
  The witness is the case of 10 actions per 60 seconds.
\<close>

theorem rate_limiter_sliding_window:
  "(let kept = filter (\<lambda>ts. now - timedelta_seconds tw < ts)
                 (case ua uid of None \<Rightarrow> [] | Some l \<Rightarrow> l)
    in is_rate_limited ua now uid m tw =
         (if m \<le> int (length kept) then (True, ua(uid \<mapsto> kept))
          else (False, ua(uid \<mapsto> kept @ [now]))))
   \<and> (ua uid = None \<and> 0 < n \<and> length ts = Suc n \<and> sorted ts \<and>
        last ts - hd ts < timedelta_seconds tw \<longrightarrow>
        fst (rate_checks ua uid (int n) tw ts) = replicate n False @ [True] \<and>
        (\<forall>t'. hd ts + timedelta_seconds tw \<le> t' \<longrightarrow>
           \<not> fst (is_rate_limited (snd (rate_checks ua uid (int n) tw ts)) t' uid (int n) tw)))"
proof (intro conjI impI allI)
  show "let kept = filter (\<lambda>ts. now - timedelta_seconds tw < ts)
                 (case ua uid of None \<Rightarrow> [] | Some l \<Rightarrow> l)
    in is_rate_limited ua now uid m tw =
         (if m \<le> int (length kept) then (True, ua(uid \<mapsto> kept))
          else (False, ua(uid \<mapsto> kept @ [now])))"
    using is_rate_limited_step[of ua now uid m tw] by simp
next
  assume a: "ua uid = None \<and> 0 < n \<and> length ts = Suc n \<and> sorted ts \<and>
        last ts - hd ts < timedelta_seconds tw"
  then have win: "\<forall>t \<in> set ts. \<forall>x \<in> set ([] :: int list) \<union> set ts. t - timedelta_seconds tw < x"
    using sorted_span_window by blast
  from a have u: "ua uid = Some [] \<or> (ua uid = None \<and> ([]::int list) = [])" by simp
  show "fst (rate_checks ua uid (int n) tw ts) = replicate n False @ [True]"
    using rate_checks_in_window[where ua = ua and uid = uid and l = "[]" and m = "int n", OF win u]
      a results_at_limit[of n] by simp
next
  fix t'
  assume a: "ua uid = None \<and> 0 < n \<and> length ts = Suc n \<and> sorted ts \<and>
        last ts - hd ts < timedelta_seconds tw"
    and late: "hd ts + timedelta_seconds tw \<le> t'"
  then have win: "\<forall>t \<in> set ts. \<forall>x \<in> set ([] :: int list) \<union> set ts. t - timedelta_seconds tw < x"
    using sorted_span_window by blast
  from a have u: "ua uid = Some [] \<or> (ua uid = None \<and> ([]::int list) = [])" by simp
  from a have ne: "ts \<noteq> []" by auto
  have stored: "snd (rate_checks ua uid (int n) tw ts) uid = Some (take n ts)"
    using rate_checks_stored[where ua = ua and uid = uid and l = "[]" and m = "int n", OF win u ne] by simp
  have "hd ts \<in> set (take n ts)" using a ne by (cases ts) (auto simp add: take_Suc_Cons gr0_conv_Suc)
  moreover have "\<not> t' - timedelta_seconds tw < hd ts" using late by simp
  ultimately have "length (filter (\<lambda>x. t' - timedelta_seconds tw < x) (take n ts)) < length (take n ts)"
    by (intro length_filter_less)
  also have "length (take n ts) = n" using a by simp
  finally show "\<not> fst (is_rate_limited (snd (rate_checks ua uid (int n) tw ts)) t' uid (int n) tw)"
    by (simp add: is_rate_limited_step stored Let_def)
qed

theorem rate_limiter_sliding_window_witness:
  "fst (rate_checks Map.empty 7 10 60
          [0, 1000000, 2000000, 3000000, 4000000, 5000000, 6000000, 7000000, 8000000,
           9000000, 59999999])
     = [False, False, False, False, False, False, False, False, False, False, True]
   \<and> \<not> fst (is_rate_limited
            (snd (rate_checks Map.empty 7 10 60
               [0, 1000000, 2000000, 3000000, 4000000, 5000000, 6000000, 7000000, 8000000,
                9000000, 59999999])) 60000000 7 10 60)"
proof -
  let ?ts = "[0, 1000000, 2000000, 3000000, 4000000, 5000000, 6000000, 7000000, 8000000,
              9000000, 59999999] :: int list"
  have h: "(Map.empty :: int \<rightharpoonup> int list) 7 = None \<and> 0 < (10::nat) \<and> length ?ts = Suc 10 \<and>
           sorted ?ts \<and> last ?ts - hd ?ts < timedelta_seconds 60"
    by (simp add: timedelta_seconds_def)
  have r: "replicate 10 False = [False, False, False, False, False, False, False, False, False, False]"
    by (simp add: numeral_eq_Suc)
  have l: "hd ?ts + timedelta_seconds 60 \<le> 60000000"
    by (simp add: timedelta_seconds_def)
  note T = rate_limiter_sliding_window
             [where ua = Map.empty and uid = 7 and n = 10 and tw = 60 and ts = "?ts",
              THEN conjunct2, rule_format, OF h]
  from T[THEN conjunct1] T[THEN conjunct2, rule_format, OF l] show ?thesis
    by (simp only: r of_nat_numeral append_Cons append_Nil simp_thms)
qed

section \<open>Evaluation and frame facts\<close>

lemmas db_defs = get_user_def create_user_def update_user_role_def get_admins_def create_ad_def
  get_ad_def set_ad_status_def update_ad_status_def set_ad_fields_def update_ad_def delete_ad_def
  get_user_ads_today_def db_cleanup_old_ads_def truthy_int_def truthy_str_def
  timedelta_days_def timedelta_seconds_def date_of_def is_admin_def is_superadmin_def

lemmas world_defs = send_message_def reply_def log_line_def raise_def set_state_def
  update_data_def clear_state_def idle_ctx_def empty_data_def

lemmas handler_defs = start_handler_def create_ad_handler_def process_title_def
  process_description_def process_contact_def notify_admins_about_new_ad_def
  process_category_def post_ad_to_channel_def approve_ad_callback_def reject_ad_callback_def
  cleanup_old_ads_def handle_add_admin_def process_new_admin_id_def handle_list_admins_def
  handle_remove_admin_def handle_broadcast_start_def process_broadcast_message_def
  handle_confirm_broadcast_def handle_cancel_broadcast_def handle_edit_ad_def
  handle_edit_title_def process_edit_title_def handle_delete_ad_def handle_confirm_delete_def
  CATEGORIES_def py_index_def SUPERADMIN_ID_def init_world_def submission_def
  is_start_command_def first_word_def py_isspace_def

section \<open>Daily quota\<close>

text \<open>
  C5. When the user already has three or more listings created on the current UTC day,
  pressing the create button is answered with the daily-limit message and nothing else
  happens: the database, every FSM context (so an idle wizard stays idle) and the
  user's listings of the day are as before.
\<close>

theorem daily_quota_refuses_fourth_listing:
  assumes "3 \<le> length (get_user_ads_today (db w) now uid)"
  shows "refused_with uid DailyLimit w (step env now (CreateAdPressed uid) w) \<and>
         cur_state (fsm (step env now (CreateAdPressed uid) w) uid) = cur_state (fsm w uid) \<and>
         ads (db (step env now (CreateAdPressed uid) w)) = ads (db w) \<and>
         get_user_ads_today (db (step env now (CreateAdPressed uid) w)) now uid =
           get_user_ads_today (db w) now uid"
  using assms by (simp add: create_ad_handler_def refused_with_def reply_def)

theorem daily_quota_refuses_fourth_listing_witness:
  "(let w = run (\<lambda>n c. None)
              ((0, Start 5 ''Ali'') # submission 10 5 ''Ali'' @ submission 20 5 ''Ali'' @ submission 30 5 ''Ali'')
              (init_world 0);
        w' = step (\<lambda>n c. None) 40 (CreateAdPressed 5) w
    in length (get_user_ads_today (db w) 40 5) = 3 \<and> cur_state (fsm w 5) = Idle \<and>
       cur_state (fsm w' 5) = Idle \<and> length (ads (db w')) = 3 \<and>
       length (get_user_ads_today (db w') 40 5) = 3)"
proof -
  let ?w = "run (\<lambda>n c. None)
              ((0, Start 5 ''Ali'') # submission 10 5 ''Ali'' @ submission 20 5 ''Ali'' @ submission 30 5 ''Ali'')
              (init_world 0)"
  have h: "3 \<le> length (get_user_ads_today (db ?w) 40 5)"
    by (simp add: db_defs world_defs handler_defs Let_def)
  have i: "cur_state (fsm ?w 5) = Idle" "length (ads (db ?w)) = 3"
          "length (get_user_ads_today (db ?w) 40 5) = 3"
    by (simp_all add: db_defs world_defs handler_defs Let_def)
  from daily_quota_refuses_fourth_listing[OF h, of "\<lambda>n c. None"] i
  show ?thesis by (simp add: Let_def)
qed


section \<open>Approval\<close>

lemma approve_ad_callback_effect:
  assumes "is_admin (db w) uid" and "get_ad (db w) i = Some a"
  shows "ads (db (approve_ad_callback env now uid i w)) =
           map (\<lambda>b. if ad_id b = i then b\<lparr>status := ''approved''\<rparr> else b) (ads (db w)) \<and>
         length (filter is_publish (out (approve_ad_callback env now uid i w))) =
           Suc (length (filter is_publish (out w)))"
  using assms
  by (simp add: approve_ad_callback_def update_ad_status_def set_ad_status_def truthy_int_def
      post_ad_to_channel_def send_message_def reply_def log_line_def Let_def
      split: option.splits)

text \<open>
  C2. User 5 submits a listing, the superadmin approves it at instant 100. Afterwards
  the listing is \<open>approved\<close> and exactly one post to the channel was issued, but the
  approver and the approval time are still unset: the handler calls the status update
  without an approver.
\<close>

theorem approve_leaves_approver_unset:
  "(let w = run (\<lambda>n c. None) ((0, Start 5 ''Ali'') # submission 10 5 ''Ali'') (init_world 0);
        w' = step (\<lambda>n c. None) 100 (Approve SUPERADMIN_ID 1) w
    in map status (ads (db w)) = [''pending''] \<and> map status (ads (db w')) = [''approved''] \<and>
       map approved_by (ads (db w')) = [None] \<and> map approved_at (ads (db w')) = [None] \<and>
       length (filter is_publish (out w')) = 1)"
  by (simp add: db_defs world_defs handler_defs Let_def)

section \<open>Role checks\<close>

lemma non_admin_is_refused:
  assumes "\<not> is_admin (db w) uid"
  shows "refused_with uid NoPermission w (approve_ad_callback env now uid i w)"
    and "refused_with uid NoPermission w (reject_ad_callback env now uid i w)"
    and "refused_with uid NoPermission w (handle_edit_ad uid i w)"
    and "refused_with uid NoPermission w (handle_edit_title uid i w)"
    and "refused_with uid NoPermission w (handle_delete_ad uid i w)"
    and "process_edit_title env uid txt w = w"
  using assms
  by (simp_all add: approve_ad_callback_def reject_ad_callback_def handle_edit_ad_def
      handle_edit_title_def handle_delete_ad_def process_edit_title_def refused_with_def reply_def)

lemma non_superadmin_is_refused:
  assumes "\<not> is_superadmin (db w) uid"
  shows "refused_with uid NoPermission w (handle_add_admin uid w)"
    and "refused_with uid NoPermission w (handle_list_admins uid w)"
    and "refused_with uid NoPermission w (handle_remove_admin env uid t w)"
    and "refused_with uid NoPermission w (handle_broadcast_start uid w)"
    and "process_broadcast_message uid txt w = w"
  using assms
  by (simp_all add: handle_add_admin_def handle_list_admins_def handle_remove_admin_def
      handle_broadcast_start_def process_broadcast_message_def refused_with_def reply_def)

text \<open>
  C4. User 6 is made admin, asks to delete listing 1 of user 5 (which shows the
  confirmation keyboard) and is then demoted to \<open>user\<close>. A new delete request by
  user 6 is refused and changes nothing, but the confirmation step carries no role
  check: pressed by user 6 it deletes the listing and notifies its owner.
\<close>

theorem confirm_delete_has_no_role_check:
  "(let e = (\<lambda>n c. None);
        w = run e ((0, Start 5 ''Ali'') # (1, Start 6 ''Vali'') #
                   (2, AddAdmin SUPERADMIN_ID) # (3, NewAdminId SUPERADMIN_ID (Some 6)) #
                   submission 10 5 ''Ali'' @
                   [(20, DeleteAd 6 1), (30, RemoveAdmin SUPERADMIN_ID 6)])
              (init_world 0);
        w' = step e 50 (ConfirmDeletePressed 6 1) w
    in map role (users (db w)) = [''superadmin'', ''user'', ''user''] \<and>
       \<not> is_admin (db w) 6 \<and>
       db (step e 50 (DeleteAd 6 1) w) = db w \<and>
       last (out (step e 50 (DeleteAd 6 1) w)) = Reply 6 NoPermission \<and>
       map ad_id (ads (db w)) = [1] \<and> ads (db w') = [] \<and>
       drop (length (out w)) (out w') =
         [Reply 6 (AdDeleted ''Python dasturchi''),
          Sent (UserChat 5) (DeletedNotice ''Python dasturchi'') None])"
  by code_simp

text \<open>
  The second step of a promotion, \<open>process_new_admin_id\<close>, checks no role either:
  invoked for user 6, a plain user, it makes user 6 an admin.
\<close>

lemma promote_step_has_no_role_check:
  "(let e = (\<lambda>n c. None);
        w = run e [(0, Start 6 ''Vali'')] (init_world 0);
        w' = step e 5 (NewAdminId 6 (Some 6)) w
    in \<not> is_superadmin (db w) 6 \<and> map role (users (db w')) = [''superadmin'', ''admin''])"
  by code_simp

section \<open>Moderation overwrites a terminal status\<close>

text \<open>
  An approved listing is moved to \<open>rejected\<close> by a later reject, and back to
  \<open>approved\<close> by a later approve.
\<close>

theorem approved_listing_can_be_rejected:
  "(let w = run (\<lambda>n c. None)
              ((0, Start 5 ''Ali'') # submission 10 5 ''Ali'' @ [(100, Approve SUPERADMIN_ID 1)])
              (init_world 0);
        w' = step (\<lambda>n c. None) 200 (Reject SUPERADMIN_ID 1) w;
        w'' = step (\<lambda>n c. None) 300 (Approve SUPERADMIN_ID 1) w'
    in map status (ads (db w)) = [''approved''] \<and> map status (ads (db w')) = [''rejected''] \<and>
       map status (ads (db w'')) = [''approved''])"
  by (simp add: db_defs world_defs handler_defs Let_def)

section \<open>What a handler does to the database\<close>

lemma db_simple [simp]:
  "db (reply uid r w) = db w" "db (log_line l w) = db w" "db (raise x w) = db w"
  "db (set_state uid s w) = db w" "db (update_data uid f w) = db w"
  "db (clear_state uid w) = db w" "db (snd (send_message env c m w)) = db w"
  by (simp_all add: world_defs Let_def)

lemma db_notify_loop [simp]: "db (notify_loop env m us w) = db w"
  by (induction us arbitrary: w) (auto simp add: send_message_def log_line_def Let_def split: option.splits)

lemma db_broadcast_loop [simp]: "db (snd (snd (broadcast_loop env txt us (s, f, w)))) = db w"
  by (induction us arbitrary: s f w) (auto simp add: send_message_def log_line_def Let_def split: option.splits)

lemma db_post_ad_to_channel [simp]: "db (post_ad_to_channel env a w) = db w"
  by (simp add: post_ad_to_channel_def send_message_def log_line_def Let_def split: option.splits)

lemma db_notify_admins [simp]: "db (notify_admins_about_new_ad env i w) = db w"
  by (simp add: notify_admins_about_new_ad_def split: option.splits)

lemma db_handle_list_admins [simp]: "db (handle_list_admins uid w) = db w"
  by (simp add: handle_list_admins_def)

lemma db_unchanged:
  "db (create_ad_handler now uid w) = db w"
  "db (process_title uid txt w) = db w"
  "db (process_description uid txt w) = db w"
  "db (process_contact uid txt w) = db w"
  "db (handle_add_admin uid w) = db w"
  "db (handle_broadcast_start uid w) = db w"
  "db (process_broadcast_message uid txt w) = db w"
  "db (handle_cancel_broadcast uid w) = db w"
  "db (handle_edit_ad uid i w) = db w"
  "db (handle_edit_title uid i w) = db w"
  "db (handle_delete_ad uid i w) = db w"
  by (simp_all add: create_ad_handler_def process_title_def process_description_def
      process_contact_def handle_add_admin_def handle_broadcast_start_def
      process_broadcast_message_def handle_cancel_broadcast_def handle_edit_ad_def
      handle_edit_title_def handle_delete_ad_def Let_def split: option.splits)

lemma db_handle_confirm_broadcast: "db (handle_confirm_broadcast env uid w) = db w"
proof -
  obtain s f w' where r: "broadcast_loop env
      (case d_broadcast_text (data (fsm w uid)) of None \<Rightarrow> ''None'' | Some t \<Rightarrow> t)
      (case d_users (data (fsm w uid)) of None \<Rightarrow> [] | Some l \<Rightarrow> l)
      (0, 0, reply uid (BroadcastStarted (length (case d_users (data (fsm w uid)) of None \<Rightarrow> [] | Some l \<Rightarrow> l))) w) = (s, f, w')"
    by (cases "broadcast_loop env
      (case d_broadcast_text (data (fsm w uid)) of None \<Rightarrow> ''None'' | Some t \<Rightarrow> t)
      (case d_users (data (fsm w uid)) of None \<Rightarrow> [] | Some l \<Rightarrow> l)
      (0, 0, reply uid (BroadcastStarted (length (case d_users (data (fsm w uid)) of None \<Rightarrow> [] | Some l \<Rightarrow> l))) w)") auto
  from db_broadcast_loop[of env _ _ 0 0 "reply uid (BroadcastStarted (length (case d_users (data (fsm w uid)) of None \<Rightarrow> [] | Some l \<Rightarrow> l))) w"] r
  have "db w' = db w" by (metis db_simple(1) snd_conv)
  then show ?thesis using r by (simp add: handle_confirm_broadcast_def Let_def)
qed

lemma ads_users_only:
  "ads (db (start_handler now uid name w)) = ads (db w)"
  "ads (db (process_new_admin_id env uid parsed w)) = ads (db w)"
  "ads (db (handle_remove_admin env uid t w)) = ads (db w)"
  by (auto simp add: start_handler_def process_new_admin_id_def handle_remove_admin_def
      create_user_def update_user_role_def Let_def split: option.splits bool.splits)


section \<open>Status transitions\<close>

lemma ads_kept:
  assumes "ads d' = ads d"
  shows "\<exists>f keep new. ads d' = map f (filter keep (ads d)) @ new \<and>
           (\<forall>a. ad_id (f a) = ad_id a \<and> status_step_ok e d a (f a)) \<and>
           (new = [] \<or> (\<exists>uid idx a. e = CategoryChosen uid idx \<and> new = [a] \<and>
                          status a = ''pending'' \<and> ad_id a = next_ad_id d))"
  by (rule exI[of _ "\<lambda>a. a"], rule exI[of _ "\<lambda>a. True"], rule exI[of _ "[]"])
     (simp add: assms status_step_ok_def)

lemma set_ad_status_no_approver: "set_ad_status now st None a = a\<lparr>status := st\<rparr>"
  by (simp add: set_ad_status_def truthy_int_def)

lemma status_step_ok_same: "status a' = status a \<Longrightarrow> status_step_ok e d a a'"
  by (simp add: status_step_ok_def)

lemma ads_moderated:
  assumes eq: "ads d' = map (\<lambda>b. if ad_id b = i then b\<lparr>status := st\<rparr> else b) (ads d)"
    and ok: "\<And>a. ad_id a = i \<Longrightarrow> status_step_ok e d a (a\<lparr>status := st\<rparr>)"
  shows "\<exists>f keep new. ads d' = map f (filter keep (ads d)) @ new \<and>
           (\<forall>a. ad_id (f a) = ad_id a \<and> status_step_ok e d a (f a)) \<and>
           (new = [] \<or> (\<exists>uid idx a. e = CategoryChosen uid idx \<and> new = [a] \<and>
                          status a = ''pending'' \<and> ad_id a = next_ad_id d))"
proof -
  let ?f = "\<lambda>b. if ad_id b = i then b\<lparr>status := st\<rparr> else b"
  have "ad_id (?f a) = ad_id a \<and> status_step_ok e d a (?f a)" for a
    using ok[of a] by (simp add: status_step_ok_same)
  then show ?thesis
    by (intro exI[of _ ?f] exI[of _ "\<lambda>a. True"] exI[of _ "[]"]) (simp add: eq)
qed

text \<open>
  C1 (as amended). One event turns the stored listings into: the surviving old listings,
  in order, each with its id and with its status either kept or set by an admin's
  approve or reject of that very listing, followed by at most one new listing, which is
  created by the wizard's last step with status \<open>pending\<close> and the next free id.
  Neither approve nor reject looks at the current status.
\<close>

theorem status_changes_only_by_moderation:
  "\<exists>f keep new.
     ads (db (step env now e w)) = map f (filter keep (ads (db w))) @ new \<and>
     (\<forall>a. ad_id (f a) = ad_id a \<and> status_step_ok e (db w) a (f a)) \<and>
     (new = [] \<or> (\<exists>uid idx a. e = CategoryChosen uid idx \<and> new = [a] \<and>
                    status a = ''pending'' \<and> ad_id a = next_ad_id (db w)))"
proof (cases e)
  case (CategoryChosen uid idx)
  show ?thesis
  proof (cases "ads (db (process_category env now uid idx w)) = ads (db w)")
    case True
    then show ?thesis using CategoryChosen ads_kept[of "db (step env now e w)" "db w" e] by simp
  next
    case False
    then obtain a where a: "ads (db (process_category env now uid idx w)) = ads (db w) @ [a]"
      "status a = ''pending''" "ad_id a = next_ad_id (db w)"
      by (auto simp add: process_category_def create_ad_def Let_def
          split: option.splits prod.splits)
    show ?thesis
      apply (rule exI[of _ "\<lambda>a. a"], rule exI[of _ "\<lambda>a. True"], rule exI[of _ "[a]"])
      using a CategoryChosen by (simp add: status_step_ok_def)
  qed
next
  case (Approve uid i)
  show ?thesis
  proof (cases "is_admin (db w) uid \<and> get_ad (db w) i \<noteq> None")
    case False
    then have "ads (db (step env now e w)) = ads (db w)"
      using Approve by (auto simp add: approve_ad_callback_def)
    then show ?thesis by (rule ads_kept)
  next
    case True
    then obtain a0 where a0: "get_ad (db w) i = Some a0" by auto
    have eq: "ads (db (step env now e w)) =
          map (\<lambda>b. if ad_id b = i then b\<lparr>status := ''approved''\<rparr> else b) (ads (db w))"
      using True a0 Approve
      by (simp add: approve_ad_callback_def update_ad_status_def set_ad_status_no_approver Let_def)
    have ok: "status_step_ok e (db w) a (a\<lparr>status := ''approved''\<rparr>)" if "ad_id a = i" for a
      using that True Approve by (simp add: status_step_ok_def)
    from eq ok show ?thesis by (rule ads_moderated)
  qed
next
  case (Reject uid i)
  show ?thesis
  proof (cases "is_admin (db w) uid \<and> get_ad (db w) i \<noteq> None")
    case False
    then have "ads (db (step env now e w)) = ads (db w)"
      using Reject by (auto simp add: reject_ad_callback_def)
    then show ?thesis by (rule ads_kept)
  next
    case True
    then obtain a0 where a0: "get_ad (db w) i = Some a0" by auto
    have eq: "ads (db (step env now e w)) =
          map (\<lambda>b. if ad_id b = i then b\<lparr>status := ''rejected''\<rparr> else b) (ads (db w))"
      using True a0 Reject
      by (simp add: reject_ad_callback_def update_ad_status_def set_ad_status_no_approver Let_def)
    have ok: "status_step_ok e (db w) a (a\<lparr>status := ''rejected''\<rparr>)" if "ad_id a = i" for a
      using that True Reject by (simp add: status_step_ok_def)
    from eq ok show ?thesis by (rule ads_moderated)
  qed
next
  case CleanupCycle
  show ?thesis
    apply (rule exI[of _ "\<lambda>a. a"])
    apply (rule exI[of _ "\<lambda>a. \<not> expires_at a < now - timedelta_days 7"], rule exI[of _ "[]"])
    using CleanupCycle by (simp add: cleanup_old_ads_def db_cleanup_old_ads_def Let_def status_step_ok_def)
next
  case (ConfirmDeletePressed uid i)
  show ?thesis
  proof (cases "get_ad (db w) i")
    case None
    then have "ads (db (step env now e w)) = ads (db w)"
      using ConfirmDeletePressed by (simp add: handle_confirm_delete_def)
    then show ?thesis by (rule ads_kept)
  next
    case (Some a0)
    show ?thesis
      apply (rule exI[of _ "\<lambda>a. a"])
      apply (rule exI[of _ "\<lambda>a. ad_id a \<noteq> i"], rule exI[of _ "[]"])
      using ConfirmDeletePressed Some
      by (simp add: handle_confirm_delete_def delete_ad_def status_step_ok_def)
  qed
next
  case (EditTitleText uid msg)
  let ?i = "the (d_edit_ad_id (data (fsm w uid)))"
  let ?f = "\<lambda>b. if ad_id b = ?i then set_ad_fields (Some (strip msg)) None None b else b"
  have "ads (db (step env now e w)) = ads (db w) \<or>
        ads (db (step env now e w)) = map ?f (ads (db w))"
    using EditTitleText
    by (auto simp add: process_edit_title_def update_ad_def Let_def
        split: option.splits bool.splits)
  then show ?thesis
  proof
    assume "ads (db (step env now e w)) = ads (db w)"
    then show ?thesis by (rule ads_kept)
  next
    assume eq: "ads (db (step env now e w)) = map ?f (ads (db w))"
    show ?thesis
      apply (rule exI[of _ ?f], rule exI[of _ "\<lambda>a. True"], rule exI[of _ "[]"])
      by (simp add: eq set_ad_fields_def truthy_str_def Let_def status_step_ok_def)
  qed
next
  case (Start uid name)
  then have "ads (db (step env now e w)) = ads (db w)" by (simp add: ads_users_only)
  then show ?thesis by (rule ads_kept)
next
  case (NewAdminId uid parsed)
  then have "ads (db (step env now e w)) = ads (db w)" by (simp add: ads_users_only)
  then show ?thesis by (rule ads_kept)
next
  case (RemoveAdmin uid t)
  then have "ads (db (step env now e w)) = ads (db w)" by (simp add: ads_users_only)
  then show ?thesis by (rule ads_kept)
next
  case (ConfirmBroadcastPressed uid)
  then have "ads (db (step env now e w)) = ads (db w)" by (simp add: db_handle_confirm_broadcast)
  then show ?thesis by (rule ads_kept)
next
  case (TextMessage uid name msg)
  then have "ads (db (step env now e w)) = ads (db w)"
    by (simp add: db_unchanged ads_users_only split: fsm_state.splits)
  then show ?thesis by (rule ads_kept)
qed (rule ads_kept, simp add: db_unchanged)+

section \<open>Length validation\<close>



lemma bare_start_is_start_command: "is_start_command bot_name ''/start''"
  by (simp add: is_start_command_def first_word_def py_isspace_def)

lemma start_text_is_start_event:
  "step env now (TextMessage uid name ''/start'') w = step env now (Start uid name) w"
  by (simp add: bare_start_is_start_command)

text \<open>
  A \<open>/start\<close> command is taken by \<open>start_handler\<close> whatever the wizard awaits: sent
  by user 9, who has no row yet, while a description is awaited, its six characters
  are not answered with the length error; the bot welcomes the sender and stores a
  row for them, and the wizard stays where it is.
\<close>

lemma start_command_preempts_wizard:
  "(let e = (\<lambda>n c. None);
        w = run e [(10, CreateAdPressed 9), (11, TextMessage 9 ''Olim'' ''Python dasturchi'')]
              (init_world 0);
        w' = step e 12 (TextMessage 9 ''Olim'' ''/start'') w
    in cur_state (fsm w 9) = Waiting_for_description \<and> length ''/start'' < 10 \<and>
       map telegram_id (users (db w)) = [SUPERADMIN_ID] \<and>
       map telegram_id (users (db w')) = [SUPERADMIN_ID, 9] \<and>
       drop (length (out w)) (out w') = [Reply 9 Welcome] \<and>
       cur_state (fsm w' 9) = Waiting_for_description)"
  by code_simp



section \<open>Demotion\<close>

lemma find_after_role_update:
  "find (\<lambda>u. telegram_id u = t)
        (map (\<lambda>u. if telegram_id u = t then u\<lparr>role := r\<rparr> else u) us) =
   map_option (\<lambda>u. u\<lparr>role := r\<rparr>) (find (\<lambda>u. telegram_id u = t) us)"
  by (induction us) auto

text \<open>
  The superadmin removes the admin rights of user 6, whose role is \<open>user\<close>: the
  operation reports success and notifies the target.
\<close>

theorem demote_of_plain_user_succeeds:
  "(let w = run (\<lambda>n c. None) [(0, Start 6 ''Vali'')] (init_world 0);
        w' = step (\<lambda>n c. None) 5 (RemoveAdmin SUPERADMIN_ID 6) w
    in map_option role (get_user (db w) 6) = Some ''user'' \<and>
       map_option role (get_user (db w') 6) = Some ''user'' \<and>
       take 2 (drop (length (out w)) (out w')) =
         [Reply SUPERADMIN_ID (AdminRemoved ''Vali''), Sent (UserChat 6) DemotedNotice None])"
  by (simp add: db_defs world_defs handler_defs Let_def)

text \<open>
  C8 (as amended). With \<open>w'\<close> the state after a demote request by caller \<open>c\<close> for
  target \<open>t\<close>: when the target is a superadmin the request is refused whoever the
  caller is, and the database and the FSM contexts are as before. When the caller is a
  superadmin and the target exists with any role other than \<open>superadmin\<close>, the target's
  role is set to \<open>user\<close> (no other row or table changes), success is reported and the
  target is notified. When the caller is no superadmin or the target does not exist,
  the database is unchanged.
\<close>

theorem demote_guard:
  assumes "w' = step env now (RemoveAdmin c t) w"
  shows "(get_user (db w) t = Some u \<and> role u = ''superadmin'' \<longrightarrow>
            refused_with c NoPermission w w' \<or> refused_with c CannotRemoveSuperadmin w w') \<and>
         (is_superadmin (db w) c \<and> get_user (db w) t = Some u \<and> role u \<noteq> ''superadmin'' \<longrightarrow>
            get_user (db w') t = Some (u\<lparr>role := ''user''\<rparr>) \<and>
            users (db w') =
              map (\<lambda>x. if telegram_id x = t then x\<lparr>role := ''user''\<rparr> else x) (users (db w)) \<and>
            ads (db w') = ads (db w) \<and>
            take 2 (drop (length (out w)) (out w')) =
              [Reply c (AdminRemoved (full_name u)),
               Sent (UserChat t) DemotedNotice (env (n_sent w) (UserChat t))]) \<and>
         (\<not> is_superadmin (db w) c \<or> get_user (db w) t = None \<longrightarrow> db w' = db w)"
proof (intro conjI impI)
  assume "get_user (db w) t = Some u \<and> role u = ''superadmin''"
  then show "refused_with c NoPermission w w' \<or> refused_with c CannotRemoveSuperadmin w w'"
    using assms by (simp add: handle_remove_admin_def refused_with_def reply_def)
next
  assume "\<not> is_superadmin (db w) c \<or> get_user (db w) t = None"
  then show "db w' = db w"
    using assms by (auto simp add: handle_remove_admin_def)
next
  assume a: "is_superadmin (db w) c \<and> get_user (db w) t = Some u \<and> role u \<noteq> ''superadmin''"
  let ?d = "(db w)\<lparr>users := map (\<lambda>x. if telegram_id x = t then x\<lparr>role := ''user''\<rparr> else x) (users (db w))\<rparr>"
  let ?w1 = "snd (send_message env (UserChat t) DemotedNotice
                    (reply c (AdminRemoved (full_name u)) (w\<lparr>db := ?d\<rparr>)))"
  have upd: "update_user_role (db w) t ''user'' = (True, ?d)"
    using a by (simp add: update_user_role_def)
  have w': "w' = handle_list_admins c ?w1"
    using assms a upd by (simp add: handle_remove_admin_def)
  have dbw': "db w' = ?d" by (simp add: w')
  show "get_user (db w') t = Some (u\<lparr>role := ''user''\<rparr>)"
    using a by (simp add: dbw' get_user_def find_after_role_update)
  show "users (db w') =
          map (\<lambda>x. if telegram_id x = t then x\<lparr>role := ''user''\<rparr> else x) (users (db w))"
    by (simp add: dbw')
  show "ads (db w') = ads (db w)" by (simp add: dbw')
  have "\<exists>r. out w' = out w @ [Reply c (AdminRemoved (full_name u)),
               Sent (UserChat t) DemotedNotice (env (n_sent w) (UserChat t))] @ [r]"
    by (simp add: w' handle_list_admins_def send_message_def reply_def Let_def)
  then show "take 2 (drop (length (out w)) (out w')) =
              [Reply c (AdminRemoved (full_name u)),
               Sent (UserChat t) DemotedNotice (env (n_sent w) (UserChat t))]"
    by auto
qed

theorem demote_guard_witness:
  "(let e = (\<lambda>n c. None);
        w = run e [(0, Start 6 ''Vali''), (1, Start 7 ''Olim''), (2, AddAdmin SUPERADMIN_ID),
                   (3, NewAdminId SUPERADMIN_ID (Some 7))] (init_world 0);
        w1 = step e 5 (RemoveAdmin 7 SUPERADMIN_ID) w;
        w2 = step e 5 (RemoveAdmin SUPERADMIN_ID SUPERADMIN_ID) w;
        w3 = step e 5 (RemoveAdmin SUPERADMIN_ID 7) w;
        w4 = step e 5 (RemoveAdmin 7 6) w
    in map role (users (db w)) = [''superadmin'', ''user'', ''admin''] \<and>
       refused_with 7 NoPermission w w1 \<and>
       refused_with SUPERADMIN_ID CannotRemoveSuperadmin w w2 \<and>
       map role (users (db w3)) = [''superadmin'', ''user'', ''user''] \<and>
       db w4 = db w)"
proof -
  let ?e = "(\<lambda>n c. None) :: env"
  let ?w = "run ?e [(0, Start 6 ''Vali''), (1, Start 7 ''Olim''), (2, AddAdmin SUPERADMIN_ID),
                   (3, NewAdminId SUPERADMIN_ID (Some 7))] (init_world 0)"
  let ?su = "\<lparr>telegram_id = SUPERADMIN_ID, full_name = ''SuperAdmin'', role = ''superadmin'',
              user_created_at = 0, is_blocked = False\<rparr>"
  let ?ad = "\<lparr>telegram_id = 7, full_name = ''Olim'', role = ''admin'',
              user_created_at = 1, is_blocked = False\<rparr>"
  have roles: "map role (users (db ?w)) = [''superadmin'', ''user'', ''admin'']"
    by (simp add: db_defs world_defs handler_defs Let_def)
  have h1: "get_user (db ?w) SUPERADMIN_ID = Some ?su \<and> role ?su = ''superadmin''"
    by (simp add: db_defs world_defs handler_defs Let_def)
  have n1: "\<not> refused_with 7 CannotRemoveSuperadmin ?w (step ?e 5 (RemoveAdmin 7 SUPERADMIN_ID) ?w)"
    by (simp add: db_defs world_defs handler_defs refused_with_def Let_def)
  have n2: "\<not> refused_with SUPERADMIN_ID NoPermission ?w
               (step ?e 5 (RemoveAdmin SUPERADMIN_ID SUPERADMIN_ID) ?w)"
    by (simp add: db_defs world_defs handler_defs refused_with_def Let_def)
  have h3: "is_superadmin (db ?w) SUPERADMIN_ID \<and> get_user (db ?w) 7 = Some ?ad \<and>
            role ?ad \<noteq> ''superadmin''"
    by (simp add: db_defs world_defs handler_defs Let_def)
  have h4: "\<not> is_superadmin (db ?w) 7 \<or> get_user (db ?w) 6 = None"
    by (simp add: db_defs world_defs handler_defs Let_def)
  have r1: "refused_with 7 NoPermission ?w (step ?e 5 (RemoveAdmin 7 SUPERADMIN_ID) ?w)"
    using demote_guard[OF refl, where c = 7 and t = SUPERADMIN_ID and w = ?w and u = ?su
                       and env = ?e and now = 5, THEN conjunct1, rule_format, OF h1] n1
    by blast
  have r2: "refused_with SUPERADMIN_ID CannotRemoveSuperadmin ?w
              (step ?e 5 (RemoveAdmin SUPERADMIN_ID SUPERADMIN_ID) ?w)"
    using demote_guard[OF refl, where c = SUPERADMIN_ID and t = SUPERADMIN_ID and w = ?w
                       and u = ?su and env = ?e and now = 5, THEN conjunct1, rule_format, OF h1] n2
    by blast
  have r3: "users (db (step ?e 5 (RemoveAdmin SUPERADMIN_ID 7) ?w)) =
              map (\<lambda>x. if telegram_id x = 7 then x\<lparr>role := ''user''\<rparr> else x) (users (db ?w))"
    using demote_guard[OF refl, where c = SUPERADMIN_ID and t = 7 and w = ?w and u = ?ad
                       and env = ?e and now = 5, THEN conjunct2, THEN conjunct1, rule_format, OF h3]
    by blast
  have r3': "map role (users (db (step ?e 5 (RemoveAdmin SUPERADMIN_ID 7) ?w))) =
               [''superadmin'', ''user'', ''user'']"
    unfolding r3 by (simp add: db_defs world_defs handler_defs Let_def)
  have r4: "db (step ?e 5 (RemoveAdmin 7 6) ?w) = db ?w"
    using demote_guard[OF refl, where c = 7 and t = 6 and w = ?w and env = ?e and now = 5,
                       THEN conjunct2, THEN conjunct2, rule_format, OF h4] .
  from roles r1 r2 r3' r4 show ?thesis unfolding Let_def by (intro conjI)
qed

section \<open>Broadcast\<close>

lemma sends_append [simp]: "sends (xs @ ys) = sends xs @ sends ys"
  by (induction xs rule: sends.induct) simp_all

lemma logged_append [simp]: "logged (xs @ ys) = logged xs @ logged ys"
  by (induction xs rule: logged.induct) simp_all

lemma send_outcomes_Cons:
  "send_outcomes env n (u # us) = env n (UserChat (telegram_id u)) # send_outcomes env (Suc n) us"
  by (simp add: send_outcomes_def)

lemma broadcast_loop_effects:
  "\<exists>new. broadcast_loop env msg us (s, f, w) =
           (s + length (filter (\<lambda>r. r = None) (send_outcomes env (n_sent w) us)),
            f + length (filter (\<lambda>r. r \<noteq> None) (send_outcomes env (n_sent w) us)),
            w\<lparr>out := out w @ new, n_sent := n_sent w + length us\<rparr>) \<and>
         sends new = map (\<lambda>u. (UserChat (telegram_id u), BroadcastNotice msg)) us \<and>
         logged new = concat (map failure_log (zip us (send_outcomes env (n_sent w) us)))"
proof (induction us arbitrary: s f w)
  case Nil
  show ?case by (rule exI[of _ "[]"]) (simp add: send_outcomes_def)
next
  case (Cons u us)
  let ?r = "env (n_sent w) (UserChat (telegram_id u))"
  let ?sent = "Sent (UserChat (telegram_id u)) (BroadcastNotice msg) ?r"
  let ?w1 = "w\<lparr>out := out w @ [?sent], n_sent := Suc (n_sent w)\<rparr>"
  show ?case
  proof (cases ?r)
    case None
    from Cons.IH[of "Suc s" f ?w1] obtain new where
      n: "broadcast_loop env msg us (Suc s, f, ?w1) =
           (Suc s + length (filter (\<lambda>r. r = None) (send_outcomes env (Suc (n_sent w)) us)),
            f + length (filter (\<lambda>r. r \<noteq> None) (send_outcomes env (Suc (n_sent w)) us)),
            ?w1\<lparr>out := out ?w1 @ new, n_sent := n_sent ?w1 + length us\<rparr>)"
      and s: "sends new = map (\<lambda>u. (UserChat (telegram_id u), BroadcastNotice msg)) us"
      and l: "logged new = concat (map failure_log (zip us (send_outcomes env (Suc (n_sent w)) us)))"
      by auto
    show ?thesis
      apply (rule exI[of _ "?sent # new"])
      using None n s l by (simp add: send_message_def send_outcomes_Cons Let_def)
  next
    case (Some e)
    let ?w2 = "if \<not> contains ''bot was blocked'' (lower e)
               then log_line (BroadcastError (telegram_id u) e) ?w1 else ?w1"
    from Cons.IH[of s "Suc f" ?w2] obtain new where
      n: "broadcast_loop env msg us (s, Suc f, ?w2) =
           (s + length (filter (\<lambda>r. r = None) (send_outcomes env (n_sent ?w2) us)),
            Suc f + length (filter (\<lambda>r. r \<noteq> None) (send_outcomes env (n_sent ?w2) us)),
            ?w2\<lparr>out := out ?w2 @ new, n_sent := n_sent ?w2 + length us\<rparr>)"
      and s: "sends new = map (\<lambda>u. (UserChat (telegram_id u), BroadcastNotice msg)) us"
      and l: "logged new = concat (map failure_log (zip us (send_outcomes env (n_sent ?w2) us)))"
      by auto
    have ns: "n_sent ?w2 = Suc (n_sent w)" by (simp add: log_line_def)
    show ?thesis
    proof (cases "contains ''bot was blocked'' (lower e)")
      case True
      show ?thesis
        apply (rule exI[of _ "?sent # new"])
        using Some True n s l by (simp add: send_message_def send_outcomes_Cons Let_def)
    next
      case False
      show ?thesis
        apply (rule exI[of _ "?sent # Logged (BroadcastError (telegram_id u) e) # new"])
        using Some False n s l
        by (simp add: send_message_def send_outcomes_Cons log_line_def Let_def)
    qed
  qed
qed

text \<open>
  The confirmation handler goes through the list of users stored in the caller's FSM
  data, in order, and attempts exactly one send to each, whatever the outcomes of the
  earlier sends; the final tally counts the delivered sends as successes and the
  failed ones as failures (together the length of the list); a failure whose
  lower-cased message contains "bot was blocked" leaves no line in the log and every
  other failure leaves one; the database is unchanged.
\<close>

lemma confirm_broadcast_over_stored_list:
  "(let us = (case d_users (data (fsm w uid)) of None \<Rightarrow> [] | Some l \<Rightarrow> l);
        msg = (case d_broadcast_text (data (fsm w uid)) of None \<Rightarrow> ''None'' | Some t \<Rightarrow> t);
        rs = send_outcomes env (n_sent w) us;
        w' = step env now (ConfirmBroadcastPressed uid) w;
        new = drop (length (out w)) (out w')
    in take (length (out w)) (out w') = out w \<and>
       sends new = map (\<lambda>u. (UserChat (telegram_id u), BroadcastNotice msg)) us \<and>
       logged new = concat (map failure_log (zip us rs)) \<and>
       last new = Reply uid (BroadcastResult (length (filter (\<lambda>r. r = None) rs))
                                             (length (filter (\<lambda>r. r \<noteq> None) rs))) \<and>
       length (filter (\<lambda>r. r = None) rs) + length (filter (\<lambda>r. r \<noteq> None) rs) = length us \<and>
       db w' = db w)"
proof -
  let ?us = "case d_users (data (fsm w uid)) of None \<Rightarrow> [] | Some l \<Rightarrow> l"
  let ?msg = "case d_broadcast_text (data (fsm w uid)) of None \<Rightarrow> ''None'' | Some t \<Rightarrow> t"
  let ?rs = "send_outcomes env (n_sent w) ?us"
  let ?w1 = "reply uid (BroadcastStarted (length ?us)) w"
  let ?ok = "length (filter (\<lambda>r. r = None) ?rs)"
  let ?ko = "length (filter (\<lambda>r. r \<noteq> None) ?rs)"
  from broadcast_loop_effects[of env ?msg ?us 0 0 ?w1] obtain new where
    n: "broadcast_loop env ?msg ?us (0, 0, ?w1) =
          (?ok, ?ko, ?w1\<lparr>out := out ?w1 @ new, n_sent := n_sent ?w1 + length ?us\<rparr>)"
    and s: "sends new = map (\<lambda>u. (UserChat (telegram_id u), BroadcastNotice ?msg)) ?us"
    and l: "logged new = concat (map failure_log (zip ?us ?rs))"
    by (auto simp add: reply_def)
  have o: "out (step env now (ConfirmBroadcastPressed uid) w) =
             out w @ (Reply uid (BroadcastStarted (length ?us)) # new @
                      [Reply uid (BroadcastResult ?ok ?ko)])"
    using n by (simp add: handle_confirm_broadcast_def Let_def reply_def clear_state_def)
  have d: "db (step env now (ConfirmBroadcastPressed uid) w) = db w"
    by (simp add: db_handle_confirm_broadcast)
  have len: "?ok + ?ko = length ?us"
    using sum_length_filter_compl[of "\<lambda>r. r = None" ?rs] by (simp add: send_outcomes_def)
  show ?thesis
    unfolding Let_def o using s l d len by simp
qed

text \<open>No handler ever stores a list of users: every handler keeps \<open>d_users\<close> or clears it.\<close>

lemma d_users_never_stored:
  "d_users (data (fsm (step env now e w) u)) = d_users (data (fsm w u)) \<or>
   d_users (data (fsm (step env now e w) u)) = None"
proof -
  have loop: "fsm (snd (snd (broadcast_loop env m us (a, b, v)))) = fsm v" for m us a b v
    by (induction us arbitrary: a b v)
       (auto simp add: send_message_def log_line_def Let_def split: option.splits)
  have nloop: "fsm (notify_loop env m us v) = fsm v" for m us v
    by (induction us arbitrary: v)
       (auto simp add: send_message_def log_line_def Let_def split: option.splits)
  have cb: "fsm (handle_confirm_broadcast env uid w) = (fsm w)(uid := idle_ctx)" for uid
  proof -
    obtain a b v where r: "broadcast_loop env
        (case d_broadcast_text (data (fsm w uid)) of None \<Rightarrow> ''None'' | Some t \<Rightarrow> t)
        (case d_users (data (fsm w uid)) of None \<Rightarrow> [] | Some l \<Rightarrow> l)
        (0, 0, reply uid (BroadcastStarted
           (length (case d_users (data (fsm w uid)) of None \<Rightarrow> [] | Some l \<Rightarrow> l))) w) = (a, b, v)"
      using prod_cases3 by blast
    have "fsm (snd (snd (a, b, v))) = fsm (reply uid (BroadcastStarted
           (length (case d_users (data (fsm w uid)) of None \<Rightarrow> [] | Some l \<Rightarrow> l))) w)"
      unfolding r[symmetric] by (rule loop)
    then have "fsm v = fsm w" by (simp add: reply_def)
    then show ?thesis
      using r by (simp add: handle_confirm_broadcast_def Let_def reply_def clear_state_def)
  qed
  show ?thesis
  proof (cases e)
    case (ConfirmBroadcastPressed uid)
    then show ?thesis by (simp add: cb idle_ctx_def empty_data_def)
  next
    case (CategoryChosen uid idx)
    then show ?thesis
      by (auto simp add: process_category_def notify_admins_about_new_ad_def nloop
          world_defs Let_def split: option.splits prod.splits)
  qed (auto simp add: handler_defs world_defs Let_def split: option.splits prod.splits
         bool.splits fsm_state.splits if_splits)
qed

lemma no_run_stores_users:
  assumes "\<And>u. d_users (data (fsm w u)) = None"
  shows "d_users (data (fsm (run env es w) u)) = None"
  using assms
proof (induction es arbitrary: w u)
  case Nil
  then show ?case by simp
next
  case (Cons te es)
  obtain now e where te: "te = (now, e)" by (cases te)
  have "d_users (data (fsm (step env now e w) v)) = None" for v
    using d_users_never_stored[of env now e w v] Cons.prems[of v] by auto
  then show ?case unfolding te run.simps by (rule Cons.IH)
qed

text \<open>
  So in every state a run reaches from the initial one, a confirmed broadcast attempts
  no send at all.
\<close>

lemma reachable_broadcast_sends_nothing:
  "sends (drop (length (out (run env es (init_world t))))
            (out (step env now (ConfirmBroadcastPressed uid) (run env es (init_world t))))) = []"
proof -
  have "d_users (data (fsm (run env es (init_world t)) uid)) = None"
    by (rule no_run_stores_users) (simp add: init_world_def idle_ctx_def empty_data_def)
  then show ?thesis
    using confirm_broadcast_over_stored_list[of "run env es (init_world t)" uid env now]
    by (simp add: Let_def)
qed

text \<open>
  C9. The users table holds the superadmin and users 6 and 7. The superadmin opens the
  broadcast and sends its text: the handler raises \<open>AttributeError\<close>, answers nothing
  and stores neither the text nor a list of users. No send to any user is attempted;
  even the confirmation handler, invoked afterwards, finds an empty list and reports
  a tally of 0 and 0.
\<close>

theorem broadcast_reaches_no_user:
  "(let e = (\<lambda>n c. None);
        w = run e [(0, Start 6 ''Vali''), (1, Start 7 ''Olim''),
                   (2, BroadcastStart SUPERADMIN_ID)] (init_world 0);
        w1 = step e 3 (BroadcastMessage SUPERADMIN_ID ''Yangi vakansiyalar'') w;
        w2 = step e 4 (ConfirmBroadcastPressed SUPERADMIN_ID) w1
    in map telegram_id (users (db w)) = [SUPERADMIN_ID, 6, 7] \<and>
       is_superadmin (db w) SUPERADMIN_ID \<and>
       cur_state (fsm w SUPERADMIN_ID) = Waiting_for_broadcast_message \<and>
       drop (length (out w)) (out w1) = [Raised AttributeError] \<and>
       d_users (data (fsm w1 SUPERADMIN_ID)) = None \<and>
       d_broadcast_text (data (fsm w1 SUPERADMIN_ID)) = None \<and>
       sends (out w1) = [] \<and> sends (out w2) = [] \<and>
       last (out w2) = Reply SUPERADMIN_ID (BroadcastResult 0 0))"
  by code_simp

end
